theory Spec2Isabelle
  imports Complex_Main
begin

section \<open>Identifier codec: the regular expressions of the two decoders\<close>

text \<open>
  Identifiers are JavaScript strings. They are modelled as \<open>string\<close>, a list of
  characters with codes below 256, so an identifier is read as a sequence of UTF-16 code
  units of that range; the line terminators U+2028 and U+2029 are outside the model.

  The regular expressions of the source are written as backtracking matchers in
  continuation-passing style, one combinator per construct, tried in the order the
  ECMAScript matcher explores them. Every pattern the source passes to \<open>match\<close>
  starts with \<open>^\<close>, ends with \<open>$\<close> and carries no flag, so a match starts at
  index 0 and ends at the end of the input.
\<close>

definition line_terminator :: "char \<Rightarrow> bool" where
  "line_terminator c \<longleftrightarrow> c = CHR 0x0A \<or> c = CHR 0x0D"

definition is_digit :: "char \<Rightarrow> bool" where
  "is_digit c \<longleftrightarrow> c \<in> set ''0123456789''"

text \<open>A literal piece of a pattern.\<close>

definition lit :: "string \<Rightarrow> (string \<Rightarrow> 'a option) \<Rightarrow> string \<Rightarrow> 'a option" where
  "lit p k s = (if take (length p) s = p then k (drop (length p) s) else None)"

text \<open>
  \<open>.+?\<close>: one or more characters other than line terminators, as few as possible. The
  continuation receives the text consumed so far (the capture, where the source has a
  group around it) and the rest of the input; when it fails, one more character is taken.
\<close>

fun lazy_dots :: "(string \<Rightarrow> string \<Rightarrow> 'a option) \<Rightarrow> string \<Rightarrow> string \<Rightarrow> 'a option" where
  "lazy_dots k acc [] = None"
| "lazy_dots k acc (c # cs) =
     (if line_terminator c then None
      else (case k (acc @ [c]) cs of
              Some r \<Rightarrow> Some r
            | None \<Rightarrow> lazy_dots k (acc @ [c]) cs))"

text \<open>\<open>\d+\<close>: one or more decimal digits, as many as possible, giving back one at a time.\<close>

fun greedy_digits :: "(string \<Rightarrow> 'a option) \<Rightarrow> string \<Rightarrow> 'a option" where
  "greedy_digits k [] = None"
| "greedy_digits k (c # cs) =
     (if is_digit c
      then (case greedy_digits k cs of Some r \<Rightarrow> Some r | None \<Rightarrow> k cs)
      else None)"

text \<open>A character class \<open>[...]\<close>, given by the list of its members.\<close>

fun char_class :: "string \<Rightarrow> (string \<Rightarrow> 'a option) \<Rightarrow> string \<Rightarrow> 'a option" where
  "char_class members k [] = None"
| "char_class members k (c # cs) = (if c \<in> set members then k cs else None)"

text \<open>An alternation \<open>a|b\<close>: the left branch first.\<close>

definition alt :: "(string \<Rightarrow> 'a option) \<Rightarrow> (string \<Rightarrow> 'a option) \<Rightarrow> string \<Rightarrow> 'a option" where
  "alt l r s = (case l s of Some x \<Rightarrow> Some x | None \<Rightarrow> r s)"

text \<open>\<open>$\<close> without the multiline flag: the end of the input.\<close>

definition at_end :: "'a \<Rightarrow> string \<Rightarrow> 'a option" where
  "at_end r s = (if s = [] then Some r else None)"

text \<open>\<open>String.prototype.endsWith\<close>.\<close>

definition endsWith :: "string \<Rightarrow> string \<Rightarrow> bool" where
  "endsWith s suffix \<longleftrightarrow>
     length suffix \<le> length s \<and> drop (length s - length suffix) s = suffix"

text \<open>
  \<open>s.replace(/-edge[12]$/, '')\<close>: the pattern can only match the last six characters,
  which are then removed; a string without that ending is returned as it is.
\<close>

definition strip_edge12 :: "string \<Rightarrow> string" where
  "strip_edge12 s =
     (if endsWith s ''-edge1'' \<or> endsWith s ''-edge2'' then take (length s - 6) s else s)"

subsection \<open>The patterns of the webview (diagram-client.ts)\<close>

text \<open>Each matcher returns capture group 1 of its pattern, or \<open>None\<close> for no match.\<close>

definition descRelMatch :: "string \<Rightarrow> string option" where
  \<comment> \<open>\<open>/^(.+?)-(?:source|target)-edge\d+$/\<close>\<close>
  "descRelMatch =
     lazy_dots (\<lambda>g. lit ''-''
       (alt (lit ''source'' (lit ''-edge'' (greedy_digits (at_end g))))
            (lit ''target'' (lit ''-edge'' (greedy_digits (at_end g)))))) []"

definition eqEdgeMatch :: "string \<Rightarrow> string option" where
  \<comment> \<open>\<open>/^\[(.+?)\]<->\[\d+\]-edge\d+$/\<close>\<close>
  "eqEdgeMatch =
     lit ''['' (lazy_dots (\<lambda>g. lit '']<->[''
       (greedy_digits (lit '']-edge'' (greedy_digits (at_end g))))) [])"

definition eqNodeMatch :: "string \<Rightarrow> string option" where
  \<comment> \<open>\<open>/^\[(.+?)\]<->\[\d+\]$/\<close>\<close>
  "eqNodeMatch =
     lit ''['' (lazy_dots (\<lambda>g. lit '']<->['' (greedy_digits (lit '']'' (at_end g)))) [])"

definition specMatch :: "string \<Rightarrow> string option" where
  \<comment> \<open>\<open>/^\[(.+?)\]->\[.+?\]$/\<close>\<close>
  "specMatch =
     lit ''['' (lazy_dots (\<lambda>g. lit '']->[''
       (lazy_dots (\<lambda>_. lit '']'' (at_end g)) [])) [])"

definition directEqMatch :: "string \<Rightarrow> string option" where
  \<comment> \<open>\<open>/^\[(.+?)\]<->\[.+?\]$/\<close>\<close>
  "directEqMatch =
     lit ''['' (lazy_dots (\<lambda>g. lit '']<->[''
       (lazy_dots (\<lambda>_. lit '']'' (at_end g)) [])) [])"

subsection \<open>The client's model tree and \<open>findElementById\<close>\<close>

text \<open>
  The webview holds the last model it was sent as a tree of elements; only \<open>id\<close>,
  \<open>type\<close>, \<open>kind\<close> and \<open>children\<close> are read by the navigation code.
  \<open>findElementById\<close> walks the tree in preorder and returns the first element with the
  given id.
\<close>

datatype smodel =
  SModelElement (sm_id: string) (sm_type: string) (sm_kind: "string option")
    (sm_children: "smodel list")

fun findElementById :: "smodel \<Rightarrow> string \<Rightarrow> smodel option"
  and findInChildren :: "smodel list \<Rightarrow> string \<Rightarrow> smodel option" where
  "findElementById (SModelElement i t k cs) x =
     (if i = x then Some (SModelElement i t k cs) else findInChildren cs x)"
| "findInChildren [] x = None"
| "findInChildren (c # cs) x =
     (case findElementById c x of Some found \<Rightarrow> Some found | None \<Rightarrow> findInChildren cs x)"

definition startsWith :: "string \<Rightarrow> string \<Rightarrow> bool" where
  "startsWith s p \<longleftrightarrow> take (length p) s = p"

text \<open>\<open>node?.type?.startsWith('node') && node.kind === k\<close> for the element found.\<close>

definition isNodeOfKind :: "smodel \<Rightarrow> string \<Rightarrow> string \<Rightarrow> bool" where
  "isNodeOfKind model qualifiedName k =
     (case findElementById model qualifiedName of
        None \<Rightarrow> False
      | Some node \<Rightarrow> startsWith (sm_type node) ''node'' \<and> sm_kind node = Some k)"

subsection \<open>\<open>NavigationHandler.resolveNavigationId\<close> (webview)\<close>

text \<open>
  The first argument is what \<open>modelGetter()\<close> returns: \<open>None\<close> for the initial
  \<open>null\<close>. The two suffix patterns return only when the model holds a node of the
  expected kind under the decoded name; otherwise control falls through to the next test.
\<close>

definition resolveBracketed :: "string \<Rightarrow> string" where
  \<comment> \<open>the last four tests of \<open>resolveNavigationId\<close> and its final \<open>return searchId\<close>\<close>
  "resolveBracketed searchId =
     (case eqEdgeMatch searchId of Some g \<Rightarrow> g | None \<Rightarrow>
     (case eqNodeMatch searchId of Some g \<Rightarrow> g | None \<Rightarrow>
     (case specMatch searchId of Some g \<Rightarrow> g | None \<Rightarrow>
     (case directEqMatch searchId of Some g \<Rightarrow> g | None \<Rightarrow>
      searchId))))"

definition resolveNavigationId :: "smodel option \<Rightarrow> string \<Rightarrow> string" where
  "resolveNavigationId modelGetter searchId =
     (case modelGetter of
        None \<Rightarrow> searchId
      | Some model \<Rightarrow>
          if (endsWith searchId ''-edge1'' \<or> endsWith searchId ''-edge2'')
             \<and> isNodeOfKind model (strip_edge12 searchId) ''relation-entity''
          then strip_edge12 searchId
          else (case descRelMatch searchId of
                  Some qualifiedName \<Rightarrow>
                    if isNodeOfKind model qualifiedName ''relation-instance''
                    then qualifiedName
                    else resolveBracketed searchId
                | None \<Rightarrow> resolveBracketed searchId))"

subsection \<open>The decoding step of the navigation request handler (language server)\<close>

text \<open>
  The first four patterns of the handler are written in the source with doubled
  backslashes and escaped quotes:
  \<^verbatim>\<open>/^\\[(.+?)\")->\\[.+?\"]$/\<close>,
  \<^verbatim>\<open>/^\\[(.+?)\"]<->\\[.+?\"]$/\<close>,
  \<^verbatim>\<open>/^\\[(.+?)\"]<->\\[\d+\"]$/\<close> and
  \<^verbatim>\<open>/^\\[(.+?)\"]<->\\[\d+\"]-edge\d+$/\<close>.
  Read by the ECMAScript grammar, \<^verbatim>\<open>\\\<close> is a literal backslash and the
  bracket after it opens a character class that runs to the next unescaped closing
  bracket; \<^verbatim>\<open>\"\<close> is the double quote, and \<^verbatim>\<open>)->\<close> inside the first
  class is the range from \<open>)\<close> to \<open>>\<close>. None of the four has a capture group, so
  after a match \<open>match[1]\<close> is \<open>undefined\<close>.
\<close>

definition backslash :: char where
  "backslash = CHR 0x5C"

definition dquote :: char where
  "dquote = CHR 0x22"

definition serverSpecClass :: string where
  \<comment> \<open>\<^verbatim>\<open>[(.+?)\")->\\[.+?\"]\<close>\<close>
  "serverSpecClass =
     ''(.+?)'' @ [dquote] @ '')*+,-./0123456789:;<=>'' @ [backslash] @ ''[.+?'' @ [dquote]"

definition serverSpecMatch :: "string \<Rightarrow> unit option" where
  "serverSpecMatch = lit [backslash] (char_class serverSpecClass (at_end ()))"

definition serverDirectEqMatch :: "string \<Rightarrow> unit option" where
  "serverDirectEqMatch =
     lit [backslash] (char_class (''(.+?)'' @ [dquote])
       (lit ''<->'' (lit [backslash] (char_class (''.+?'' @ [dquote]) (at_end ())))))"

definition serverEqNodeMatch :: "string \<Rightarrow> unit option" where
  "serverEqNodeMatch =
     lit [backslash] (char_class (''(.+?)'' @ [dquote])
       (lit ''<->'' (lit [backslash] (char_class (''0123456789+'' @ [dquote]) (at_end ())))))"

definition serverEqEdgeMatch :: "string \<Rightarrow> unit option" where
  "serverEqEdgeMatch =
     lit [backslash] (char_class (''(.+?)'' @ [dquote])
       (lit ''<->'' (lit [backslash] (char_class (''0123456789+'' @ [dquote])
         (lit ''-edge'' (greedy_digits (at_end ())))))))"

definition serverDescRelMatch :: "string \<Rightarrow> string option" where
  \<comment> \<open>\<open>/^(.+?)-(source|target)-edge\d+$/\<close>, group 1\<close>
  "serverDescRelMatch =
     lazy_dots (\<lambda>g. lit ''-''
       (alt (lit ''source'' (lit ''-edge'' (greedy_digits (at_end g))))
            (lit ''target'' (lit ''-edge'' (greedy_digits (at_end g)))))) []"

text \<open>
  The decoding step proper is the chain of tests on \<open>elementId\<close>. The search for an
  ontology namespace that the handler runs before it, for an identifier that contains a
  slash or starts with \<open>http\<close>, may answer the request on its own and is not part of
  the decoding.

  The value of \<open>memberName\<close> after the chain of tests: \<open>None\<close> stands for
  \<open>undefined\<close>, assigned from \<open>match[1]\<close> of a pattern without a group. The handler
  then calls \<open>memberName.includes\<close>, which throws on \<open>undefined\<close>; its catch block
  answers \<open>null\<close>.
\<close>

definition decodeMemberName :: "string \<Rightarrow> string option" where
  "decodeMemberName elementId =
     (if serverSpecMatch elementId \<noteq> None then None
      else if serverDirectEqMatch elementId \<noteq> None then None
      else if serverEqNodeMatch elementId \<noteq> None then None
      else if serverEqEdgeMatch elementId \<noteq> None then None
      else if endsWith elementId ''-edge1'' \<or> endsWith elementId ''-edge2''
        then Some (strip_edge12 elementId)
      else (case serverDescRelMatch elementId of
              Some g \<Rightarrow> Some g
            | None \<Rightarrow> Some elementId))"

subsection \<open>The decode table of the specification\<close>





section \<open>JavaScript numbers\<close>

text \<open>
  A JavaScript number is modelled as a real number or one of the three special values of
  IEEE 754 arithmetic. Operations follow the IEEE rules for the special values and are
  exact on the reals: rounding is not modelled, and neither is the sign of zero (a zero
  divisor is taken as \<open>+0\<close>).
\<close>

datatype jsnum = Num real | PInf | NInf | NaN

fun jneg :: "jsnum \<Rightarrow> jsnum" where
  "jneg (Num a) = Num (- a)"
| "jneg PInf = NInf"
| "jneg NInf = PInf"
| "jneg NaN = NaN"

fun jadd :: "jsnum \<Rightarrow> jsnum \<Rightarrow> jsnum" where
  "jadd NaN _ = NaN"
| "jadd _ NaN = NaN"
| "jadd (Num a) (Num b) = Num (a + b)"
| "jadd PInf NInf = NaN"
| "jadd NInf PInf = NaN"
| "jadd PInf _ = PInf"
| "jadd _ PInf = PInf"
| "jadd NInf _ = NInf"
| "jadd _ NInf = NInf"

definition jsub :: "jsnum \<Rightarrow> jsnum \<Rightarrow> jsnum" where
  "jsub a b = jadd a (jneg b)"

text \<open>An infinity with the sign of a real factor; zero times infinity is \<open>NaN\<close>.\<close>

definition signed_inf :: "real \<Rightarrow> jsnum" where
  "signed_inf a = (if a = 0 then NaN else if 0 < a then PInf else NInf)"

fun jmul :: "jsnum \<Rightarrow> jsnum \<Rightarrow> jsnum" where
  "jmul NaN _ = NaN"
| "jmul _ NaN = NaN"
| "jmul (Num a) (Num b) = Num (a * b)"
| "jmul (Num a) PInf = signed_inf a"
| "jmul (Num a) NInf = signed_inf (- a)"
| "jmul PInf (Num b) = signed_inf b"
| "jmul NInf (Num b) = signed_inf (- b)"
| "jmul PInf PInf = PInf"
| "jmul NInf NInf = PInf"
| "jmul PInf NInf = NInf"
| "jmul NInf PInf = NInf"

fun jdiv :: "jsnum \<Rightarrow> jsnum \<Rightarrow> jsnum" where
  "jdiv NaN _ = NaN"
| "jdiv _ NaN = NaN"
| "jdiv (Num a) (Num b) = (if b = 0 then signed_inf a else Num (a / b))"
| "jdiv (Num a) PInf = Num 0"
| "jdiv (Num a) NInf = Num 0"
| "jdiv PInf (Num b) = (if 0 \<le> b then PInf else NInf)"
| "jdiv NInf (Num b) = (if 0 \<le> b then NInf else PInf)"
| "jdiv PInf PInf = NaN"
| "jdiv PInf NInf = NaN"
| "jdiv NInf PInf = NaN"
| "jdiv NInf NInf = NaN"

text \<open>\<open>Math.sqrt\<close>.\<close>

fun jsqrt :: "jsnum \<Rightarrow> jsnum" where
  "jsqrt (Num a) = (if a < 0 then NaN else Num (sqrt a))"
| "jsqrt PInf = PInf"
| "jsqrt NInf = NaN"
| "jsqrt NaN = NaN"

text \<open>\<open>Math.min\<close> and \<open>Math.max\<close> of two arguments: \<open>NaN\<close> if either is.\<close>

fun jmin :: "jsnum \<Rightarrow> jsnum \<Rightarrow> jsnum" where
  "jmin NaN _ = NaN"
| "jmin _ NaN = NaN"
| "jmin NInf _ = NInf"
| "jmin _ NInf = NInf"
| "jmin PInf b = b"
| "jmin a PInf = a"
| "jmin (Num a) (Num b) = Num (min a b)"

fun jmax :: "jsnum \<Rightarrow> jsnum \<Rightarrow> jsnum" where
  "jmax NaN _ = NaN"
| "jmax _ NaN = NaN"
| "jmax PInf _ = PInf"
| "jmax _ PInf = PInf"
| "jmax NInf b = b"
| "jmax a NInf = a"
| "jmax (Num a) (Num b) = Num (max a b)"

text \<open>Strict equality \<open>===\<close> on numbers: \<open>NaN\<close> equals nothing, itself included.\<close>

definition jeq :: "jsnum \<Rightarrow> jsnum \<Rightarrow> bool" where
  "jeq a b \<longleftrightarrow> a \<noteq> NaN \<and> a = b"

text \<open>
  The decimal text of a natural number, as a template literal renders a non-negative
  integer below \<open>10^21\<close>.
\<close>

fun string_of_nat :: "nat \<Rightarrow> string" where
  "string_of_nat n =
     (if n < 10 then [''0123456789'' ! n]
      else string_of_nat (n div 10) @ [''0123456789'' ! (n mod 10)])"

declare string_of_nat.simps [simp del]

section \<open>Graph synthesizer: \<open>diagramToSprotty\<close> (diagram-layout.ts)\<close>

subsection \<open>The semantic diagram model\<close>

text \<open>
  The model comes from \<open>computeDiagramModel\<close> of the \<open>oml-language\<close> package; these are
  the fields \<open>diagramToSprotty\<close> reads. An optional field is an \<open>option\<close>, with
  \<open>None\<close> for \<open>undefined\<close>.
\<close>

record DiagramNode =
  dn_id :: string
  dn_kind :: string
  dn_label :: "string option"
  dn_types :: "string list option"
  dn_properties :: "string list option"
  dn_startLine :: "nat option"
  dn_startColumn :: "nat option"
  dn_endLine :: "nat option"
  dn_endColumn :: "nat option"

record DiagramEdge =
  de_id :: "string option"
  de_kind :: string
  de_source :: string
  de_target :: string
  de_label :: "string option"
  de_hasMarker :: "bool option"
  de_startLine :: "nat option"
  de_startColumn :: "nat option"
  de_endLine :: "nat option"
  de_endColumn :: "nat option"

record DiagramModel =
  dm_nodes :: "DiagramNode list"
  dm_edges :: "DiagramEdge list"

subsection \<open>The Sprotty model\<close>

text \<open>
  Layout options are JavaScript objects with string keys and values: association lists
  in insertion order. The \<open>labelSize\<close> option of a label, a pair of numbers rendered as
  text in the source, is kept as the pair of numbers in a field of its own. The fields
  \<open>position\<close>, \<open>routingPoints\<close>, \<open>points\<close> and \<open>bendPoints\<close> are never written by the
  synthesizer; the layout engine supplies them and the label adjustment reads them.
\<close>

type_synonym options = "(string \<times> string) list"

type_synonym point = "jsnum \<times> jsnum"

record SLabel =
  label_id :: string
  label_type :: string
  label_text :: string
  label_labelSize :: "jsnum \<times> jsnum"
  label_layoutOptions :: options
  label_position :: "point option"

record SNode =
  node_id :: string
  node_type :: string
  node_kind :: string
  node_size :: "jsnum \<times> jsnum"
  node_types :: "string list"
  node_props :: "string list"
  node_cssClasses :: "string list option"
  node_layoutOptions :: options
  node_children :: "SLabel list"
  node_position :: "point option"

record SEdge =
  edge_id :: string
  edge_type :: string
  edge_kind :: string
  edge_hasMarker :: "bool option"
  edge_sourceId :: string
  edge_targetId :: string
  edge_labelIndex :: jsnum
  edge_cssClasses :: "string list option"
  edge_layoutOptions :: options
  edge_children :: "SLabel list"
  edge_routingPoints :: "point list option"
  edge_points :: "point list option"
  edge_bendPoints :: "point list option"

datatype SChild = Node SNode | Edge SEdge

record SModelRoot =
  root_id :: string
  root_type :: string
  root_layoutOptions :: options
  root_children :: "SChild list"

subsection \<open>Object literals and spread\<close>

text \<open>
  Writing a property keeps the position of a key that is already there and appends a new
  one; \<open>{...a, ...b}\<close> writes the properties of \<open>b\<close> over those of \<open>a\<close> in order.
\<close>

fun put :: "string \<Rightarrow> string \<Rightarrow> options \<Rightarrow> options" where
  "put k v [] = [(k, v)]"
| "put k v ((k', v') # ps) = (if k' = k then (k, v) # ps else (k', v') # put k v ps)"

definition spread :: "options \<Rightarrow> options \<Rightarrow> options" where
  "spread a b = foldl (\<lambda>acc (k, v). put k v acc) a b"

subsection \<open>Nodes\<close>

text \<open>A template literal renders \<open>undefined\<close> by its name.\<close>

definition template_num :: "nat option \<Rightarrow> string" where
  "template_num v = (case v of None \<Rightarrow> ''undefined'' | Some n \<Rightarrow> string_of_nat n)"

definition srcClass :: "nat option \<Rightarrow> nat option \<Rightarrow> nat option \<Rightarrow> nat option \<Rightarrow> string list option" where
  "srcClass startLine startColumn endLine endColumn =
     (if startLine \<noteq> None
      then Some [''src-'' @ template_num startLine @ ''-'' @ template_num startColumn
                 @ ''-'' @ template_num endLine @ ''-'' @ template_num endColumn]
      else None)"

fun join :: "string list \<Rightarrow> string \<Rightarrow> string" where
  "join [] sep = []"
| "join [x] sep = x"
| "join (x # y # ys) sep = x @ sep @ join (y # ys) sep"

text \<open>\<open>Math.max(...xs)\<close>: minus infinity for no argument.\<close>

definition max_of :: "jsnum list \<Rightarrow> jsnum" where
  "max_of xs = foldl jmax NInf xs"

text \<open>
  The body of \<open>model.nodes.forEach\<close> for a node that is drawn: its size from the
  longest of its texts, and its label as its one child.
\<close>

definition createNode :: "DiagramNode \<Rightarrow> SNode" where
  "createNode n =
     (let labelText = (case dn_label n of Some l \<Rightarrow> l | None \<Rightarrow> dn_id n);
          types = (case dn_types n of Some ts \<Rightarrow> ts | None \<Rightarrow> []);
          properties = (case dn_properties n of Some ps \<Rightarrow> ps | None \<Rightarrow> []);
          typesText = (if length types > 0
                       then [CHR 0xAB] @ join types '', '' @ [CHR 0xBB] else []);
          allTexts = filter (\<lambda>t. length t > 0) ([typesText, labelText] @ properties);
          maxTextLength = max_of (map (\<lambda>t. Num (real (length t))) allTexts);
          width = jmax (Num 120) (jmin (Num 600) (jadd (Num 24) (jmul (Num 7.5) maxTextLength)));
          typesLineHeight = (if length types > 0 then 16 else 0);
          propsHeight = real (length properties) * 16;
          height = jmax (Num 56) (Num (typesLineHeight + 32 + propsHeight + 8))
      in \<lparr> node_id = dn_id n,
           node_type = ''node:rect'',
           node_kind = dn_kind n,
           node_size = (width, height),
           node_types = types,
           node_props = properties,
           node_cssClasses =
             srcClass (dn_startLine n) (dn_startColumn n) (dn_endLine n) (dn_endColumn n),
           node_layoutOptions = [(''org.eclipse.elk.portConstraints'', ''FREE'')],
           node_children =
             [\<lparr> label_id = dn_id n @ ''_label'',
                label_type = ''label'',
                label_text = labelText,
                label_labelSize = (jsub width (Num 20), Num 20),
                label_layoutOptions =
                  [(''org.eclipse.elk.nodeLabels.offsetY'',
                    if length types > 0 then ''28'' else ''12'')],
                label_position = None \<rparr>],
           node_position = None \<rparr>)"

definition createNodes :: "DiagramModel \<Rightarrow> SNode list" where
  "createNodes model = map createNode (filter (\<lambda>n. dn_kind n \<noteq> ''relation'') (dm_nodes model))"

subsection \<open>Unique identifiers\<close>

text \<open>
  \<open>usedIds\<close> is a JavaScript \<open>Set\<close>, only ever asked for membership; it is kept as
  the list of the identifiers added to it. The loop of \<open>makeUniqueId\<close> tries
  \<open>base\<close>, then \<open>base:1\<close>, \<open>base:2\<close> and so on.
\<close>

definition candidate :: "string \<Rightarrow> nat \<Rightarrow> string" where
  "candidate base i = base @ '':'' @ string_of_nat i"

text \<open>
  The loop ends because \<open>usedIds\<close> is finite and the candidates are pairwise different:
  the decimal text of a number determines the number.
\<close>

function makeUniqueId_loop :: "string list \<Rightarrow> string \<Rightarrow> string \<Rightarrow> nat \<Rightarrow> string" where
  "makeUniqueId_loop usedIds base ident i =
     (if ident \<in> set usedIds
      then makeUniqueId_loop usedIds base (candidate base i) (Suc i)
      else ident)"
  by pat_completeness auto
termination
proof (relation "measure (\<lambda>(usedIds, base, ident, i).
          card {j. i \<le> j \<and> candidate base j \<in> set usedIds}
          + (if ident \<in> set usedIds then 1 else 0))")
  show "wf (measure (\<lambda>(usedIds, base, ident, i).
          card {j. i \<le> j \<and> candidate base j \<in> set usedIds}
          + (if ident \<in> set usedIds then 1 else 0)))"
    by simp
next
  fix usedIds :: "string list" and base ident :: string and i :: nat
  assume used: "ident \<in> set usedIds"
  have digit_inj: "m = n"
    if "m < 10" and "n < 10" and "''0123456789'' ! m = ''0123456789'' ! n" for m n :: nat
  proof -
    have "distinct ''0123456789''" by simp
    moreover have "m < length ''0123456789''" "n < length ''0123456789''"
      using that by simp_all
    ultimately show ?thesis using that(3) nth_eq_iff_index_eq by blast
  qed
  have nonempty: "string_of_nat n \<noteq> []" for n
    by (subst string_of_nat.simps) simp
  have text_inj: "m = n" if "string_of_nat m = string_of_nat n" for m n
    using that
  proof (induction m arbitrary: n rule: less_induct)
    case (less m)
    show ?case
    proof (cases "m < 10")
      case True
      show ?thesis
      proof (cases "n < 10")
        case n: True
        from less.prems True n have "''0123456789'' ! m = ''0123456789'' ! n"
          by (simp add: string_of_nat.simps [of m] string_of_nat.simps [of n])
        with True n show ?thesis by (rule digit_inj)
      next
        case n: False
        from less.prems True n have "string_of_nat (n div 10) = []"
          by (simp add: string_of_nat.simps [of m] string_of_nat.simps [of n])
        with nonempty show ?thesis by blast
      qed
    next
      case False
      show ?thesis
      proof (cases "n < 10")
        case n: True
        from less.prems False n have "string_of_nat (m div 10) = []"
          by (simp add: string_of_nat.simps [of m] string_of_nat.simps [of n])
        with nonempty show ?thesis by blast
      next
        case n: False
        from less.prems False n
        have a: "string_of_nat (m div 10) = string_of_nat (n div 10)"
          and b: "''0123456789'' ! (m mod 10) = ''0123456789'' ! (n mod 10)"
          by (simp_all add: string_of_nat.simps [of m] string_of_nat.simps [of n])
        from False have "m div 10 < m" by simp
        from less.IH [OF this a] have "m div 10 = n div 10" .
        moreover have "m mod 10 = n mod 10"
          by (rule digit_inj [OF _ _ b]) simp_all
        ultimately show ?thesis by (metis div_mult_mod_eq)
      qed
    qed
  qed
  have "inj (candidate base)"
    by (rule injI) (simp add: candidate_def text_inj)
  then have "finite (candidate base -` set usedIds)" by (simp add: finite_vimageI)
  then have fin: "finite {j. candidate base j \<in> set usedIds}" by (simp add: vimage_def)
  let ?A = "{j. i \<le> j \<and> candidate base j \<in> set usedIds}"
  let ?B = "{j. Suc i \<le> j \<and> candidate base j \<in> set usedIds}"
  have finA: "finite ?A" and finB: "finite ?B" using fin by simp_all
  have "card ?B + (if candidate base i \<in> set usedIds then 1 else 0) \<le> card ?A"
  proof (cases "candidate base i \<in> set usedIds")
    case True
    have "?A = insert i ?B" using True by (auto simp: le_Suc_eq)
    moreover have "i \<notin> ?B" by simp
    ultimately show ?thesis using True finB by simp
  next
    case False
    have "?B \<subseteq> ?A" by auto
    with finA have "card ?B \<le> card ?A" by (rule card_mono)
    with False show ?thesis by simp
  qed
  with used
  show "((usedIds, base, candidate base i, Suc i), (usedIds, base, ident, i))
        \<in> measure (\<lambda>(usedIds, base, ident, i).
          card {j. i \<le> j \<and> candidate base j \<in> set usedIds}
          + (if ident \<in> set usedIds then 1 else 0))"
    by simp
qed

declare makeUniqueId_loop.simps [simp del]

text \<open>\<open>makeUniqueId\<close> returns the identifier and adds it to \<open>usedIds\<close>.\<close>

definition makeUniqueId :: "string list \<Rightarrow> string \<Rightarrow> string \<times> string list" where
  "makeUniqueId usedIds base =
     (let ident = makeUniqueId_loop usedIds base base 1 in (ident, usedIds @ [ident]))"

subsection \<open>The self-loop counters\<close>

text \<open>
  \<open>selfLoopAssigned\<close> is a plain object created by \<open>{}\<close>, so a read of a key it does
  not own goes on to \<open>Object.prototype\<close>. Its own properties are a map; the value of a
  property is a number, or something that is not a number: a function or object
  inherited from the prototype, or the string that \<open>+ 1\<close> makes of one. Converting
  such a value to a number gives \<open>NaN\<close>.
\<close>

datatype jsvalue = Number jsnum | NonNumeric

definition object_prototype_keys :: "string list" where
  "object_prototype_keys =
     [''constructor'', ''hasOwnProperty'', ''isPrototypeOf'', ''propertyIsEnumerable'',
      ''toLocaleString'', ''toString'', ''valueOf'', ''__proto__'',
      ''__defineGetter__'', ''__defineSetter__'', ''__lookupGetter__'', ''__lookupSetter__'']"

text \<open>\<open>obj[key]\<close>: \<open>None\<close> for \<open>undefined\<close>.\<close>

definition getProperty :: "(string \<rightharpoonup> jsvalue) \<Rightarrow> string \<Rightarrow> jsvalue option" where
  "getProperty obj key =
     (case obj key of
        Some v \<Rightarrow> Some v
      | None \<Rightarrow> if key \<in> set object_prototype_keys then Some NonNumeric else None)"

text \<open>
  \<open>obj[key] = v\<close> for a number or string \<open>v\<close>: the setter of \<open>__proto__\<close> ignores
  such a value, every other key becomes an own property.
\<close>

definition setProperty :: "(string \<rightharpoonup> jsvalue) \<Rightarrow> string \<Rightarrow> jsvalue \<Rightarrow> (string \<rightharpoonup> jsvalue)" where
  "setProperty obj key v = (if key = ''__proto__'' then obj else obj(key \<mapsto> v))"

text \<open>\<open>v + 1\<close>: addition on a number, concatenation of text otherwise.\<close>

fun plus_one :: "jsvalue \<Rightarrow> jsvalue" where
  "plus_one (Number x) = Number (jadd x (Num 1))"
| "plus_one NonNumeric = NonNumeric"

text \<open>\<open>v - 1\<close>, with \<open>undefined\<close> and text that is no numeral converted to \<open>NaN\<close>.\<close>

fun minus_one :: "jsvalue option \<Rightarrow> jsnum" where
  "minus_one (Some (Number x)) = jsub x (Num 1)"
| "minus_one (Some NonNumeric) = NaN"
| "minus_one None = NaN"

subsection \<open>Edges\<close>

record edge_loop =
  usedIds :: "string list"
  selfLoopAssigned :: "string \<rightharpoonup> jsvalue"
  edges :: "SEdge list"

text \<open>
  \<open>e.id ? String(e.id) : `${e.source}->${e.target}`\<close>: an identifier that is
  \<open>undefined\<close> or empty is falsy.
\<close>

definition baseId :: "DiagramEdge \<Rightarrow> string" where
  "baseId e =
     (case de_id e of
        None \<Rightarrow> de_source e @ ''->'' @ de_target e
      | Some i \<Rightarrow> if i = [] then de_source e @ ''->'' @ de_target e else i)"

definition baseLayoutOptions :: "bool \<Rightarrow> options" where
  "baseLayoutOptions isSpec =
     (if isSpec
      then [(''org.eclipse.elk.edge.type'', ''GENERALIZATION''),
            (''org.eclipse.elk.edge.source.side'', ''NORTH''),
            (''org.eclipse.elk.edge.target.side'', ''SOUTH'')]
      else [(''org.eclipse.elk.edge.type'', ''ASSOCIATION''),
            (''org.eclipse.elk.edge.routing'', ''POLYLINE'')])"

definition selfLoopOptions :: "bool \<Rightarrow> options" where
  "selfLoopOptions isSelfLoop =
     (if isSelfLoop
      then [(''org.eclipse.elk.layered.edgeRouting.selfLoopDistribution'', ''EQUALLY''),
            (''org.eclipse.elk.layered.edgeRouting.selfLoopPlacement'', ''NORTH_SEQUENCE''),
            (''org.eclipse.elk.spacing.nodeSelfLoop'', ''56'')]
      else [])"

definition labelElement :: "string \<Rightarrow> string \<Rightarrow> SLabel" where
  "labelElement ident text =
     \<lparr> label_id = ident @ ''_label'',
       label_type = ''label'',
       label_text = text,
       label_labelSize =
         (jmax (Num 60)
            (jmin (Num 300) (jadd (jmul (Num (real (length text))) (Num 7.5)) (Num 8))),
          Num 14),
       label_layoutOptions =
         [(''org.eclipse.elk.edgeLabels.placement'', ''CENTER''),
          (''org.eclipse.elk.edgeLabels.inline'', ''false''),
          (''org.eclipse.elk.edgeLabels.side'', ''ABOVE'')],
       label_position = None \<rparr>"

text \<open>\<open>children: e.label ? [...] : []\<close>: an empty label is falsy.\<close>

definition edgeLabel :: "string \<Rightarrow> string option \<Rightarrow> SLabel list" where
  "edgeLabel ident label =
     (case label of
        None \<Rightarrow> []
      | Some text \<Rightarrow> if text = [] then [] else [labelElement ident text])"

text \<open>
  One turn of \<open>model.edges.forEach\<close>, on the state the loop carries: the used
  identifiers, the self-loop counters and the edges made so far.
\<close>

definition createEdge :: "edge_loop \<Rightarrow> DiagramEdge \<Rightarrow> edge_loop" where
  "createEdge st e =
     (let isSpec = (de_kind e = ''specialization'' \<or> de_kind e = ''equivalence'');
          isSelfLoop = (de_source e = de_target e);
          assigned =
            (if isSelfLoop
             then (let count = (case getProperty (selfLoopAssigned st) (de_source e) of
                                  None \<Rightarrow> Number (Num 0)
                                | Some v \<Rightarrow> v)
                   in setProperty (selfLoopAssigned st) (de_source e) (plus_one count))
             else selfLoopAssigned st);
          (ident, used) =
            makeUniqueId (usedIds st) (baseId e)
      in \<lparr> usedIds = used,
           selfLoopAssigned = assigned,
           edges = edges st @
             [\<lparr> edge_id = ident,
                edge_type = ''edge'',
                edge_kind = de_kind e,
                edge_hasMarker = de_hasMarker e,
                edge_sourceId = de_source e,
                edge_targetId = de_target e,
                edge_labelIndex =
                  (if isSelfLoop then minus_one (getProperty assigned (de_source e))
                   else Num 0),
                edge_cssClasses =
                  srcClass (de_startLine e) (de_startColumn e) (de_endLine e) (de_endColumn e),
                edge_layoutOptions =
                  spread (spread [(''org.eclipse.elk.edgeLabels.placement'', ''CENTER'')]
                            (baseLayoutOptions isSpec))
                    (selfLoopOptions isSelfLoop),
                edge_children = edgeLabel ident (de_label e),
                edge_routingPoints = None,
                edge_points = None,
                edge_bendPoints = None \<rparr>] \<rparr>)"

definition createEdges :: "SNode list \<Rightarrow> DiagramEdge list \<Rightarrow> SEdge list" where
  "createEdges nodes es =
     edges (foldl createEdge
       \<lparr> usedIds = map node_id nodes, selfLoopAssigned = Map.empty, edges = [] \<rparr> es)"

definition diagramToSprotty :: "DiagramModel \<Rightarrow> SModelRoot" where
  "diagramToSprotty model =
     (let nodes = createNodes model;
          edges = createEdges nodes (dm_edges model)
      in \<lparr> root_id = ''root'',
           root_type = ''graph'',
           root_layoutOptions =
             [(''org.eclipse.elk.algorithm'', ''org.eclipse.elk.layered''),
              (''org.eclipse.elk.direction'', ''DOWN'')],
           root_children = map Node nodes @ map Edge edges \<rparr>)"

text \<open>
  What reaches the webview: the tree of the elements with the fields its navigation code
  reads.
\<close>

definition labelToSModel :: "SLabel \<Rightarrow> smodel" where
  "labelToSModel l = SModelElement (label_id l) (label_type l) None []"

fun childToSModel :: "SChild \<Rightarrow> smodel" where
  "childToSModel (Node n) =
     SModelElement (node_id n) (node_type n) (Some (node_kind n))
       (map labelToSModel (node_children n))"
| "childToSModel (Edge e) =
     SModelElement (edge_id e) (edge_type e) (Some (edge_kind e))
       (map labelToSModel (edge_children e))"

definition rootToSModel :: "SModelRoot \<Rightarrow> smodel" where
  "rootToSModel r =
     SModelElement (root_id r) (root_type r) None (map childToSModel (root_children r))"

section \<open>Layout adapter: \<open>computeLaidOutSModelForUri\<close> (diagram-layout.ts)\<close>

text \<open>
  \<open>OmlLayoutConfigurator\<close> overrides two methods of the configurator of the
  \<open>sprotty-elk\<close> package; each returns a fixed object.
\<close>

record LayoutConfigurator =
  graphOptions :: options
  labelOptions :: options

definition OmlLayoutConfigurator :: LayoutConfigurator where
  "OmlLayoutConfigurator =
     \<lparr> graphOptions =
         [(''org.eclipse.elk.algorithm'', ''org.eclipse.elk.layered''),
          (''org.eclipse.elk.direction'', ''UP''),
          (''org.eclipse.elk.layered.layering.strategy'', ''LONGEST_PATH''),
          (''org.eclipse.elk.layered.cycleBreaking.strategy'', ''DEPTH_FIRST''),
          (''org.eclipse.elk.layered.considerModelOrder.strategy'', ''PREFER_NODES''),
          (''org.eclipse.elk.layered.nodePlacement.strategy'', ''BRANDES_KOEPF''),
          (''org.eclipse.elk.layered.nodePlacement.bk.fixedAlignment'', ''CENTER''),
          (''org.eclipse.elk.edgeRouting'', ''POLYLINE''),
          (''org.eclipse.elk.layered.edgeRouting'', ''POLYLINE''),
          (''org.eclipse.elk.layered.mergeEdges'', ''false''),
          (''org.eclipse.elk.layered.crossingMinimization.separateEdgeGroups'', ''true''),
          (''org.eclipse.elk.layered.spacing.nodeNodeBetweenLayers'', ''72''),
          (''org.eclipse.elk.spacing.nodeNode'', ''28''),
          (''org.eclipse.elk.spacing.edgeNode'', ''24''),
          (''org.eclipse.elk.spacing.edgeEdge'', ''18''),
          (''org.eclipse.elk.spacing.portPort'', ''12''),
          (''org.eclipse.elk.insideSelfLoops.activate'', ''true''),
          (''org.eclipse.elk.spacing.nodeSelfLoop'', ''48''),
          (''org.eclipse.elk.layered.edgeRouting.selfLoopDistribution'', ''EQUALLY''),
          (''org.eclipse.elk.layered.edgeRouting.selfLoopOrdering'', ''STACKED''),
          (''org.eclipse.elk.layered.edgeRouting.selfLoopPlacement'', ''NORTH_SEQUENCE'')],
       labelOptions =
         [(''org.eclipse.elk.nodeLabels.placement'', ''INSIDE, H_CENTER, V_TOP'')] \<rparr>"

text \<open>
  The layout engine is the \<open>ElkLayoutEngine\<close> of \<open>sprotty-elk\<close>, built once from the
  configurator and called with the synthesized graph. It is a parameter of the model: a
  function that answers an error (\<open>Inl\<close>, for a thrown exception or a rejected promise)
  or the laid-out graph. An engine that writes to its argument before it throws is
  outside this model.
\<close>

type_synonym layout_engine = "LayoutConfigurator \<Rightarrow> SModelRoot \<Rightarrow> string + SModelRoot"

text \<open>\<open>child.children.find(c => c.type === 'label')\<close> and the write to its position.\<close>

fun setLabelPosition :: "point \<Rightarrow> SLabel list \<Rightarrow> SLabel list" where
  "setLabelPosition p [] = []"
| "setLabelPosition p (c # cs) =
     (if label_type c = ''label'' then c\<lparr>label_position := Some p\<rparr> # cs
      else c # setLabelPosition p cs)"

text \<open>\<open>routingPoints ?? points ?? bendPoints ?? []\<close>.\<close>

definition edgePoints :: "SEdge \<Rightarrow> point list" where
  "edgePoints e =
     (case edge_routingPoints e of
        Some pts \<Rightarrow> pts
      | None \<Rightarrow>
          (case edge_points e of
             Some pts \<Rightarrow> pts
           | None \<Rightarrow> (case edge_bendPoints e of Some pts \<Rightarrow> pts | None \<Rightarrow> [])))"

text \<open>
  The body of the loop over the children of the laid-out graph. A child that is not an
  edge is left alone; so is an edge without a label, with a placement other than
  \<open>TAIL\<close>, with fewer than two points, or with a last segment of length zero.
\<close>

definition adjustEdgeLabel :: "SEdge \<Rightarrow> SEdge" where
  "adjustEdgeLabel child =
     (if edge_type child \<noteq> ''edge'' then child
      else if find (\<lambda>c. label_type c = ''label'') (edge_children child) = None then child
      else if map_of (edge_layoutOptions child) ''org.eclipse.elk.edgeLabels.placement''
              \<noteq> Some ''TAIL'' then child
      else (let pts = edgePoints child in
            if length pts < 2 then child
            else (let last = pts ! (length pts - 1);
                      prev = pts ! (length pts - 2);
                      dx = jsub (fst last) (fst prev);
                      dy = jsub (snd last) (snd prev);
                      dist = jsqrt (jadd (jmul dx dx) (jmul dy dy))
                  in if jeq dist (Num 0) then child
                     else (let ux = jdiv dx dist;
                               uy = jdiv dy dist
                           in child\<lparr>edge_children :=
                                setLabelPosition
                                  (jsub (fst last) (jmul ux (Num 12)),
                                   jsub (snd last) (jmul uy (Num 12)))
                                  (edge_children child)\<rparr>))))"

fun adjustChild :: "SChild \<Rightarrow> SChild" where
  "adjustChild (Node n) = Node n"
| "adjustChild (Edge e) = Edge (adjustEdgeLabel e)"

text \<open>
  The \<open>try\<close> block and its \<open>catch\<close>: the engine's graph with the labels adjusted, or the
  graph that was passed in when the engine fails.
\<close>

definition layoutWithFallback :: "layout_engine \<Rightarrow> SModelRoot \<Rightarrow> SModelRoot" where
  "layoutWithFallback ElkLayoutEngine sgraph =
     (case ElkLayoutEngine OmlLayoutConfigurator sgraph of
        Inl err \<Rightarrow> sgraph
      | Inr laidOut \<Rightarrow> laidOut\<lparr>root_children := map adjustChild (root_children laidOut)\<rparr>)"

text \<open>The argument \<open>diagram\<close> is what \<open>computeDiagramModel\<close> returned for the document.\<close>

definition computeLaidOutSModelForUri :: "layout_engine \<Rightarrow> DiagramModel \<Rightarrow> SModelRoot" where
  "computeLaidOutSModelForUri ElkLayoutEngine diagram =
     layoutWithFallback ElkLayoutEngine (diagramToSprotty diagram)"

section \<open>Pan and zoom: \<open>PanZoomController\<close> (diagram-client.ts)\<close>

text \<open>
  The fields of the controller. Coordinates that come with a DOM event are finite
  numbers and are taken as reals; what the controller computes from them is a
  JavaScript number and may be infinite or \<open>NaN\<close>. \<open>Math.exp\<close> is the real
  exponential. The listener \<open>preventNodeDrag\<close> writes no field of the controller and
  is left out.
\<close>

record PanZoomController =
  isPanning :: bool
  startX :: jsnum
  startY :: jsnum
  panX :: jsnum
  panY :: jsnum
  scale :: jsnum
  pinchActive :: bool
  pinchStartDist :: jsnum
  pinchStartScale :: jsnum
  pinchStartPanX :: jsnum
  pinchStartPanY :: jsnum
  pinchCenterX :: jsnum
  pinchCenterY :: jsnum

definition initial :: PanZoomController where
  "initial =
     \<lparr> isPanning = False, startX = Num 0, startY = Num 0, panX = Num 0, panY = Num 0,
       scale = Num 1, pinchActive = False, pinchStartDist = Num 0, pinchStartScale = Num 1,
       pinchStartPanX = Num 0, pinchStartPanY = Num 0,
       pinchCenterX = Num 0, pinchCenterY = Num 0 \<rparr>"

definition MIN_SCALE :: jsnum where
  "MIN_SCALE = Num 0.2"

definition MAX_SCALE :: jsnum where
  "MAX_SCALE = Num 3"

definition clamp :: "jsnum \<Rightarrow> jsnum \<Rightarrow> jsnum \<Rightarrow> jsnum" where
  "clamp v lo hi = jmax lo (jmin hi v)"

text \<open>\<open>Math.hypot\<close> of two finite differences.\<close>

definition distance :: "real \<Rightarrow> real \<Rightarrow> real \<Rightarrow> real \<Rightarrow> jsnum" where
  "distance x1 y1 x2 y2 = Num (sqrt ((x2 - x1) * (x2 - x1) + (y2 - y1) * (y2 - y1)))"

text \<open>A touch point, \<open>(clientX, clientY)\<close>; a bounding rectangle, \<open>(left, top)\<close>.\<close>

type_synonym touch = "real \<times> real"

type_synonym rect = "real \<times> real"

definition zoomAt :: "jsnum \<Rightarrow> real \<Rightarrow> real \<Rightarrow> PanZoomController \<Rightarrow> PanZoomController" where
  "zoomAt newScale cx cy c =
     (let s0 = scale c;
          s1 = clamp newScale MIN_SCALE MAX_SCALE
      in if jeq s1 s0 then c
         else c\<lparr> panX := jadd (panX c) (jmul (jsub (Num 1) (jdiv s1 s0)) (jsub (Num cx) (panX c))),
                 panY := jadd (panY c) (jmul (jsub (Num 1) (jdiv s1 s0)) (jsub (Num cy) (panY c))),
                 scale := s1 \<rparr>)"

definition onWheel :: "real \<Rightarrow> real \<Rightarrow> real \<Rightarrow> rect \<Rightarrow> PanZoomController \<Rightarrow> PanZoomController" where
  "onWheel clientX clientY deltaY r c =
     (let cx = clientX - fst r;
          cy = clientY - snd r;
          zoomFactor = Num (exp (- deltaY * 0.001))
      in zoomAt (jmul (scale c) zoomFactor) cx cy c)"

definition onMouseDown :: "nat \<Rightarrow> bool \<Rightarrow> real \<Rightarrow> real \<Rightarrow> PanZoomController \<Rightarrow> PanZoomController" where
  "onMouseDown button hitInteractive clientX clientY c =
     (if button = 1 \<or> (button = 0 \<and> \<not> hitInteractive)
      then c\<lparr> isPanning := True,
              startX := jsub (Num clientX) (panX c),
              startY := jsub (Num clientY) (panY c) \<rparr>
      else c)"

definition onMouseMove :: "real \<Rightarrow> real \<Rightarrow> PanZoomController \<Rightarrow> PanZoomController" where
  "onMouseMove clientX clientY c =
     (if \<not> isPanning c then c
      else c\<lparr> panX := jsub (Num clientX) (startX c), panY := jsub (Num clientY) (startY c) \<rparr>)"

definition onMouseUp :: "PanZoomController \<Rightarrow> PanZoomController" where
  "onMouseUp c = (if \<not> isPanning c then c else c\<lparr> isPanning := False \<rparr>)"

definition initializePinch :: "touch \<Rightarrow> touch \<Rightarrow> rect \<Rightarrow> PanZoomController \<Rightarrow> PanZoomController" where
  "initializePinch t0 t1 r c =
     c\<lparr> pinchActive := True,
        pinchStartDist := distance (fst t0) (snd t0) (fst t1) (snd t1),
        pinchStartScale := scale c,
        pinchStartPanX := panX c,
        pinchStartPanY := panY c,
        pinchCenterX := Num ((fst t0 + fst t1) / 2 - fst r),
        pinchCenterY := Num ((snd t0 + snd t1) / 2 - snd r),
        isPanning := False \<rparr>"

fun onTouchStart :: "touch list \<Rightarrow> rect \<Rightarrow> PanZoomController \<Rightarrow> PanZoomController" where
  "onTouchStart [t] r c =
     c\<lparr> isPanning := True,
        startX := jsub (Num (fst t)) (panX c),
        startY := jsub (Num (snd t)) (panY c) \<rparr>"
| "onTouchStart [t0, t1] r c = initializePinch t0 t1 r c"
| "onTouchStart touches r c = c"

definition handlePinchMove :: "touch \<Rightarrow> touch \<Rightarrow> PanZoomController \<Rightarrow> PanZoomController" where
  "handlePinchMove t0 t1 c =
     (let d = distance (fst t0) (snd t0) (fst t1) (snd t1);
          newScale = clamp (jmul (pinchStartScale c) (jdiv d (pinchStartDist c)))
                       MIN_SCALE MAX_SCALE;
          s0 = scale c;
          s1 = newScale
      in c\<lparr> panX := jadd (pinchStartPanX c)
                  (jmul (jsub (Num 1) (jdiv s1 s0)) (jsub (pinchCenterX c) (pinchStartPanX c))),
              panY := jadd (pinchStartPanY c)
                  (jmul (jsub (Num 1) (jdiv s1 s0)) (jsub (pinchCenterY c) (pinchStartPanY c))),
              scale := newScale \<rparr>)"

fun onTouchMove :: "touch list \<Rightarrow> PanZoomController \<Rightarrow> PanZoomController" where
  "onTouchMove [t0, t1] c = (if pinchActive c then handlePinchMove t0 t1 c else c)"
| "onTouchMove [t] c =
     (if isPanning c
      then c\<lparr> panX := jsub (Num (fst t)) (startX c), panY := jsub (Num (snd t)) (startY c) \<rparr>
      else c)"
| "onTouchMove touches c = c"

fun onTouchEnd :: "touch list \<Rightarrow> PanZoomController \<Rightarrow> PanZoomController" where
  "onTouchEnd [] c = c\<lparr> isPanning := False, pinchActive := False \<rparr>"
| "onTouchEnd [t] c =
     c\<lparr> pinchActive := False,
        startX := jsub (Num (fst t)) (panX c),
        startY := jsub (Num (snd t)) (panY c) \<rparr>"
| "onTouchEnd touches c = c"

definition reset :: "PanZoomController \<Rightarrow> PanZoomController" where
  "reset c = c\<lparr> panX := Num 0, panY := Num 0, scale := Num 1 \<rparr>"

text \<open>The events the controller listens to, and a run of the controller over a sequence.\<close>

datatype event =
    MouseDown nat bool real real
  | MouseMove real real
  | MouseUp
  | Wheel real real real rect
  | TouchStart "touch list" rect
  | TouchMove "touch list"
  | TouchEnd "touch list"
  | Reset

fun handle :: "PanZoomController \<Rightarrow> event \<Rightarrow> PanZoomController" where
  "handle c (MouseDown button hit x y) = onMouseDown button hit x y c"
| "handle c (MouseMove x y) = onMouseMove x y c"
| "handle c MouseUp = onMouseUp c"
| "handle c (Wheel x y deltaY r) = onWheel x y deltaY r c"
| "handle c (TouchStart touches r) = onTouchStart touches r c"
| "handle c (TouchMove touches) = onTouchMove touches c"
| "handle c (TouchEnd touches) = onTouchEnd touches c"
| "handle c Reset = reset c"

definition run :: "event list \<Rightarrow> PanZoomController" where
  "run events = foldl handle initial events"

subsection \<open>The element on the screen\<close>

text \<open>
  \<open>updateTransform\<close>, called after every write to the pan or the scale, sets on the
  target the transform \<open>translate(panX, panY) scale(scale)\<close> with its origin at
  \<open>0 0\<close>. The application builds its controller with one element in both places,
  \<open>new PanZoomController(root, root)\<close>, so the element that carries the transform is
  the element whose bounding rectangle \<open>onWheel\<close> and \<open>initializePinch\<close> read.

  Let \<open>corner\<close> be the place of that element's left upper corner in the viewport
  without the transform. With the transform, the point \<open>q\<close> of the diagram is drawn at
  the client coordinate \<open>corner + pan + scale * q\<close> on each axis, and the left upper
  corner of the rectangle that \<open>getBoundingClientRect\<close> reports is \<open>corner + pan\<close>.
  This holds while the pan is finite and the scale a positive number; otherwise the text
  written by \<open>updateTransform\<close> is not a transform, the element keeps the one it had,
  and the fields of the controller do not tell where it is (\<open>None\<close>).
\<close>

definition getBoundingClientRect :: "real \<times> real \<Rightarrow> PanZoomController \<Rightarrow> rect option" where
  "getBoundingClientRect corner c =
     (case panX c of
        Num px \<Rightarrow>
          (case panY c of
             Num py \<Rightarrow>
               (case scale c of
                  Num s \<Rightarrow> if 0 < s then Some (fst corner + px, snd corner + py) else None
                | _ \<Rightarrow> None)
           | _ \<Rightarrow> None)
      | _ \<Rightarrow> None)"

text \<open>
  The diagram coordinate drawn at a client coordinate: \<open>(client - corner - pan) / scale\<close>.
\<close>

definition diagramX :: "real \<times> real \<Rightarrow> PanZoomController \<Rightarrow> real \<Rightarrow> jsnum" where
  "diagramX corner c clientX = jdiv (jsub (Num (clientX - fst corner)) (panX c)) (scale c)"

definition diagramY :: "real \<times> real \<Rightarrow> PanZoomController \<Rightarrow> real \<Rightarrow> jsnum" where
  "diagramY corner c clientY = jdiv (jsub (Num (clientY - snd corner)) (panY c)) (scale c)"
section \<open>Notions used in the statements\<close>

subsection \<open>Reading a synthesized graph\<close>

text \<open>The identifier of a child of the root, and the edges and the nodes among the children.\<close>

fun childId :: "SChild \<Rightarrow> string" where
  "childId (Node n) = node_id n"
| "childId (Edge e) = edge_id e"

fun rootEdges :: "SChild list \<Rightarrow> SEdge list" where
  "rootEdges [] = []"
| "rootEdges (Node n # cs) = rootEdges cs"
| "rootEdges (Edge e # cs) = e # rootEdges cs"

fun rootNodes :: "SChild list \<Rightarrow> SNode list" where
  "rootNodes [] = []"
| "rootNodes (Node n # cs) = n # rootNodes cs"
| "rootNodes (Edge e # cs) = rootNodes cs"

text \<open>No position on a label; no position, routing points or positioned label on a child.\<close>

definition unpositionedLabel :: "SLabel \<Rightarrow> bool" where
  "unpositionedLabel l \<longleftrightarrow> label_position l = None"

fun unpositioned :: "SChild \<Rightarrow> bool" where
  "unpositioned (Node n) \<longleftrightarrow>
     node_position n = None \<and> list_all unpositionedLabel (node_children n)"
| "unpositioned (Edge e) \<longleftrightarrow>
     edge_routingPoints e = None \<and> edge_points e = None \<and> edge_bendPoints e = None
     \<and> list_all unpositionedLabel (edge_children e)"

text \<open>The edge-label placement of an edge is \<open>CENTER\<close>.\<close>

definition placementCenter :: "SEdge \<Rightarrow> bool" where
  "placementCenter e \<longleftrightarrow>
     map_of (edge_layoutOptions e) ''org.eclipse.elk.edgeLabels.placement'' = Some ''CENTER''"

text \<open>The self-loops on the node \<open>n\<close> among a list of edges, in their order.\<close>

definition loopsOn :: "string \<Rightarrow> SEdge list \<Rightarrow> SEdge list" where
  "loopsOn n es = filter (\<lambda>e. edge_sourceId e = n \<and> edge_targetId e = n) es"

subsection \<open>Invariants of the edge loop\<close>

text \<open>The identifier that the next turn of the loop gives to the edge \<open>e\<close>.\<close>

definition newId :: "edge_loop \<Rightarrow> DiagramEdge \<Rightarrow> string" where
  "newId st e = makeUniqueId_loop (usedIds st) (baseId e) (baseId e) 1"

text \<open>
  The edge identifiers given out so far are pairwise different, all of them and all node
  identifiers are in \<open>usedIds\<close>, and no edge identifier is a node identifier.
\<close>

definition ids_ok :: "string list \<Rightarrow> edge_loop \<Rightarrow> bool" where
  "ids_ok nodeIds st \<longleftrightarrow>
     distinct (map edge_id (edges st))
     \<and> set (map edge_id (edges st)) \<subseteq> set (usedIds st)
     \<and> set nodeIds \<subseteq> set (usedIds st)
     \<and> set (map edge_id (edges st)) \<inter> set nodeIds = {}"

text \<open>
  For a key that \<open>Object.prototype\<close> does not have, the self-loops on it so far carry
  the indices 0, 1, 2 and so on in order, and the counter holds their number (or is
  absent when there is none).
\<close>

definition counters_ok :: "edge_loop \<Rightarrow> bool" where
  "counters_ok st \<longleftrightarrow>
     (\<forall>n. n \<notin> set object_prototype_keys \<longrightarrow>
        map edge_labelIndex (loopsOn n (edges st))
          = map (\<lambda>i. Num (real i)) [0..<length (loopsOn n (edges st))]
        \<and> selfLoopAssigned st n
          = (if loopsOn n (edges st) = [] then None
             else Some (Number (Num (real (length (loopsOn n (edges st))))))))"

text \<open>Every edge so far is a self-loop or has the label index 0.\<close>

definition plain_ok :: "edge_loop \<Rightarrow> bool" where
  "plain_ok st \<longleftrightarrow>
     list_all (\<lambda>E. edge_sourceId E = edge_targetId E \<or> edge_labelIndex E = Num 0) (edges st)"

text \<open>No edge so far has routing points or a positioned label.\<close>

definition edges_unpositioned :: "edge_loop \<Rightarrow> bool" where
  "edges_unpositioned st \<longleftrightarrow> list_all (\<lambda>e. unpositioned (Edge e)) (edges st)"

text \<open>Every edge so far has the edge-label placement \<open>CENTER\<close>.\<close>

definition edges_centered :: "edge_loop \<Rightarrow> bool" where
  "edges_centered st \<longleftrightarrow> list_all placementCenter (edges st)"

subsection \<open>The layout engine's side of the contract\<close>

text \<open>
  Every edge of the graph the engine returns carries the layout options of an edge of
  the graph it was given: the engine adds positions and routing points and does not
  rewrite the options.
\<close>

definition keepsEdgeOptions :: "SModelRoot \<Rightarrow> SModelRoot \<Rightarrow> bool" where
  "keepsEdgeOptions sgraph laidOut \<longleftrightarrow>
     list_all (\<lambda>e. edge_layoutOptions e
                    \<in> set (map edge_layoutOptions (rootEdges (root_children sgraph))))
       (rootEdges (root_children laidOut))"

subsection \<open>The invariant of the controller's scale\<close>

text \<open>A number between 0.2 and 3.\<close>

definition in_range :: "jsnum \<Rightarrow> bool" where
  "in_range v \<longleftrightarrow> (case v of Num s \<Rightarrow> 0.2 \<le> s \<and> s \<le> 3 | _ \<Rightarrow> False)"

text \<open>
  The scale and the scale recorded at the start of a pinch are in range, and while a
  pinch is active the distance recorded at its start is a positive number.
\<close>

definition scale_ok :: "PanZoomController \<Rightarrow> bool" where
  "scale_ok c \<longleftrightarrow>
     in_range (scale c) \<and> in_range (pinchStartScale c)
     \<and> (if pinchActive c then (case pinchStartDist c of Num d \<Rightarrow> 0 < d | _ \<Rightarrow> False)
        else True)"

text \<open>An event is proper unless it starts a pinch with its two touch points at one place.\<close>

fun proper :: "event \<Rightarrow> bool" where
  "proper (TouchStart [t0, t1] r) \<longleftrightarrow> t0 \<noteq> t1"
| "proper ev \<longleftrightarrow> True"

subsection \<open>Sample inputs\<close>

text \<open>Client models: a graph without elements, and one with a relation-entity node \<open>Q\<close>.\<close>

definition emptyGraph :: smodel where
  "emptyGraph = SModelElement ''root'' ''graph'' None []"

definition graphWithRelationEntity :: smodel where
  "graphWithRelationEntity =
     SModelElement ''root'' ''graph'' None
       [SModelElement ''Q'' ''node:rect'' (Some ''relation-entity'') []]"

text \<open>A node and an edge of the semantic model with every optional field but \<open>id\<close> absent.\<close>

definition plainNode :: "string \<Rightarrow> string \<Rightarrow> DiagramNode" where
  "plainNode i k =
     \<lparr> dn_id = i, dn_kind = k, dn_label = None, dn_types = None, dn_properties = None,
       dn_startLine = None, dn_startColumn = None, dn_endLine = None, dn_endColumn = None \<rparr>"

definition plainEdge :: "string option \<Rightarrow> string \<Rightarrow> string \<Rightarrow> string \<Rightarrow> DiagramEdge" where
  "plainEdge i k s t =
     \<lparr> de_id = i, de_kind = k, de_source = s, de_target = t, de_label = None,
       de_hasMarker = None, de_startLine = None, de_startColumn = None,
       de_endLine = None, de_endColumn = None \<rparr>"

text \<open>
  Scenario A of the specification: the concepts \<open>A\<close> and \<open>B\<close> and a specialization
  edge with the identifier \<open>A->B\<close> between them.
\<close>

definition scenarioA :: DiagramModel where
  "scenarioA =
     \<lparr> dm_nodes = [plainNode ''A'' ''concept'', plainNode ''B'' ''concept''],
       dm_edges = [plainEdge (Some ''A->B'') ''specialization'' ''A'' ''B''] \<rparr>"

text \<open>Two nodes under one identifier.\<close>

definition twoNodesOneId :: DiagramModel where
  "twoNodesOneId =
     \<lparr> dm_nodes = [plainNode ''A'' ''concept'', plainNode ''A'' ''aspect''], dm_edges = [] \<rparr>"

text \<open>A self-loop on a node named \<open>constructor\<close>, and two self-loops on a node \<open>A\<close>.\<close>

definition constructorLoop :: DiagramModel where
  "constructorLoop =
     \<lparr> dm_nodes = [plainNode ''constructor'' ''concept''],
       dm_edges = [plainEdge None ''relation'' ''constructor'' ''constructor''] \<rparr>"

definition twoLoops :: DiagramModel where
  "twoLoops =
     \<lparr> dm_nodes = [plainNode ''A'' ''concept''],
       dm_edges = [plainEdge None ''relation'' ''A'' ''A'',
                   plainEdge None ''relation'' ''A'' ''A''] \<rparr>"

text \<open>A relation edge from \<open>A\<close> to \<open>B\<close> with the label \<open>knows\<close>.\<close>

definition labelledEdge :: DiagramModel where
  "labelledEdge =
     \<lparr> dm_nodes = [plainNode ''A'' ''concept'', plainNode ''B'' ''concept''],
       dm_edges = [(plainEdge (Some ''r'') ''relation'' ''A'' ''B'')
                     \<lparr> de_label := Some ''knows'' \<rparr>] \<rparr>"

text \<open>
  Layout engines: one that always fails, and one that puts every node at the origin
  and gives every edge two routing points and every edge label the position \<open>(5, 5)\<close>.
\<close>

definition failingEngine :: layout_engine where
  "failingEngine cfg g = Inl ''layout failed''"


fun place :: "SChild \<Rightarrow> SChild" where
  "place (Node n) = Node (n\<lparr> node_position := Some (Num 0, Num 0) \<rparr>)"
| "place (Edge e) =
     Edge (e\<lparr> edge_routingPoints := Some [(Num 0, Num 0), (Num 0, Num 10)],
              edge_children :=
                map (\<lambda>l. l\<lparr> label_position := Some (Num 5, Num 5) \<rparr>) (edge_children e) \<rparr>)"

definition placed :: "SModelRoot \<Rightarrow> SModelRoot" where
  "placed g = g\<lparr> root_children := map place (root_children g) \<rparr>"

definition placingEngine :: layout_engine where
  "placingEngine cfg g = Inr (placed g)"

text \<open>
  A laid-out edge with the placement \<open>TAIL\<close> whose last segment runs from \<open>(0, 0)\<close> to
  \<open>(0, 10)\<close>.
\<close>

definition tailEdge :: SEdge where
  "tailEdge =
     \<lparr> edge_id = ''t'', edge_type = ''edge'', edge_kind = ''relation'',
       edge_hasMarker = None, edge_sourceId = ''A'', edge_targetId = ''B'',
       edge_labelIndex = Num 0, edge_cssClasses = None,
       edge_layoutOptions = [(''org.eclipse.elk.edgeLabels.placement'', ''TAIL'')],
       edge_children = [labelElement ''t'' ''knows''],
       edge_routingPoints = Some [(Num 0, Num 0), (Num 0, Num 10)],
       edge_points = None, edge_bendPoints = None \<rparr>"

section \<open>Properties of the identifier codec\<close>

subsection \<open>What a successful match says about the input\<close>

lemma lit_SomeD: "lit p k s = Some r \<Longrightarrow> \<exists>rest. s = p @ rest \<and> k rest = Some r"
  unfolding lit_def by (metis append_take_drop_id option.distinct(1))

lemma lit_not_startsWith: "\<not> startsWith s p \<Longrightarrow> lit p k s = None"
  by (simp add: lit_def startsWith_def)

lemma at_end_SomeD: "at_end g s = Some r \<Longrightarrow> r = g \<and> s = []"
  by (simp add: at_end_def split: if_splits)

lemma lazy_dots_SomeD:
  "lazy_dots k acc s = Some r \<Longrightarrow>
     \<exists>p rest. p \<noteq> [] \<and> s = p @ rest \<and> k (acc @ p) rest = Some r"
proof (induction s arbitrary: acc)
  case Nil
  then show ?case by simp
next
  case (Cons c cs)
  show ?case
  proof (cases "k (acc @ [c]) cs")
    case None
    with Cons.prems have "lazy_dots k (acc @ [c]) cs = Some r"
      by (simp split: if_splits)
    from Cons.IH [OF this] obtain p rest
      where "p \<noteq> []" "cs = p @ rest" "k ((acc @ [c]) @ p) rest = Some r" by blast
    then have "c # p \<noteq> [] \<and> c # cs = (c # p) @ rest \<and> k (acc @ (c # p)) rest = Some r"
      by simp
    then show ?thesis by blast
  next
    case (Some x)
    with Cons.prems have "x = r" by (simp split: if_splits)
    with Some have "[c] \<noteq> [] \<and> c # cs = [c] @ cs \<and> k (acc @ [c]) cs = Some r" by simp
    then show ?thesis by blast
  qed
qed

lemma greedy_digits_SomeD:
  "greedy_digits k s = Some r \<Longrightarrow> \<exists>d rest. d \<noteq> [] \<and> s = d @ rest \<and> k rest = Some r"
proof (induction s)
  case Nil
  then show ?case by simp
next
  case (Cons c cs)
  show ?case
  proof (cases "greedy_digits k cs")
    case None
    with Cons.prems have "k cs = Some r" by (simp split: if_splits)
    then have "[c] \<noteq> [] \<and> c # cs = [c] @ cs \<and> k cs = Some r" by simp
    then show ?thesis by blast
  next
    case (Some x)
    with Cons.prems have "greedy_digits k cs = Some r" by (simp split: if_splits)
    from Cons.IH [OF this] obtain d rest where "d \<noteq> []" "cs = d @ rest" "k rest = Some r"
      by blast
    then have "c # d \<noteq> [] \<and> c # cs = (c # d) @ rest \<and> k rest = Some r" by simp
    then show ?thesis by blast
  qed
qed





text \<open>
  After the capture of the relation-instance pattern come at least thirteen characters:
  a hyphen, \<open>source\<close> or \<open>target\<close>, \<open>-edge\<close> and a digit.
\<close>

lemma desc_tail_length:
  assumes "lit ''-'' (alt (lit ''source'' (lit ''-edge'' (greedy_digits (at_end g))))
            (lit ''target'' (lit ''-edge'' (greedy_digits (at_end g))))) rest = Some r"
  shows "r = g \<and> 13 \<le> length rest"
proof -
  from lit_SomeD [OF assms] obtain r1 where r1: "rest = ''-'' @ r1"
    and a: "alt (lit ''source'' (lit ''-edge'' (greedy_digits (at_end g))))
            (lit ''target'' (lit ''-edge'' (greedy_digits (at_end g)))) r1 = Some r"
    by blast
  from a have "lit ''source'' (lit ''-edge'' (greedy_digits (at_end g))) r1 = Some r
     \<or> lit ''target'' (lit ''-edge'' (greedy_digits (at_end g))) r1 = Some r"
    by (simp add: alt_def split: option.splits)
  then obtain w r2 where w: "length w = 6" and r2: "r1 = w @ r2"
    and b: "lit ''-edge'' (greedy_digits (at_end g)) r2 = Some r"
  proof
    assume "lit ''source'' (lit ''-edge'' (greedy_digits (at_end g))) r1 = Some r"
    from lit_SomeD [OF this] show ?thesis using that [of "''source''"] by auto
  next
    assume "lit ''target'' (lit ''-edge'' (greedy_digits (at_end g))) r1 = Some r"
    from lit_SomeD [OF this] show ?thesis using that [of "''target''"] by auto
  qed
  from lit_SomeD [OF b] obtain r3 where r3: "r2 = ''-edge'' @ r3"
    and c: "greedy_digits (at_end g) r3 = Some r" by blast
  from greedy_digits_SomeD [OF c] obtain d r4 where d: "d \<noteq> []" "r3 = d @ r4"
    and e: "at_end g r4 = Some r" by blast
  from at_end_SomeD [OF e] have "r = g" by simp
  moreover from d have "1 \<le> length r3" by (cases d) auto
  ultimately show ?thesis using r1 r2 r3 w by simp
qed

lemma descRelMatch_length: "descRelMatch s = Some g \<Longrightarrow> length g + 13 \<le> length s"
proof -
  assume "descRelMatch s = Some g"
  then have "lazy_dots (\<lambda>g. lit ''-''
       (alt (lit ''source'' (lit ''-edge'' (greedy_digits (at_end g))))
            (lit ''target'' (lit ''-edge'' (greedy_digits (at_end g)))))) [] s = Some g"
    by (simp add: descRelMatch_def)
  from lazy_dots_SomeD [OF this] obtain p rest where s: "s = p @ rest"
    and k: "lit ''-'' (alt (lit ''source'' (lit ''-edge'' (greedy_digits (at_end ([] @ p)))))
            (lit ''target'' (lit ''-edge'' (greedy_digits (at_end ([] @ p)))))) rest = Some g"
    by blast
  from desc_tail_length [OF k] have "g = p" "13 \<le> length rest" by simp_all
  with s show ?thesis by simp
qed

text \<open>
  The relation-instance pattern of the server has a capturing group where the webview's
  has a non-capturing one; group 1 is the same.
\<close>

lemma serverDescRelMatch_eq: "serverDescRelMatch = descRelMatch"
  by (simp add: serverDescRelMatch_def descRelMatch_def)

lemma resolveBracketed_id: "\<not> startsWith s ''['' \<Longrightarrow> resolveBracketed s = s"
  by (simp add: resolveBracketed_def eqEdgeMatch_def eqNodeMatch_def specMatch_def
      directEqMatch_def lit_not_startsWith)

lemma server_bracket_patterns_None:
  assumes "\<not> startsWith s [backslash]"
  shows "serverSpecMatch s = None" and "serverDirectEqMatch s = None"
    and "serverEqNodeMatch s = None" and "serverEqEdgeMatch s = None"
  using assms
  by (simp_all add: serverSpecMatch_def serverDirectEqMatch_def serverEqNodeMatch_def
      serverEqEdgeMatch_def lit_not_startsWith)

lemma strip_edge12_length:
  "endsWith s ''-edge1'' \<or> endsWith s ''-edge2'' \<Longrightarrow> length (strip_edge12 s) + 6 = length s"
  by (auto simp: strip_edge12_def endsWith_def)

subsection \<open>The two decoders compared\<close>

text \<open>
  C1, as stated: the webview and the server decode every identifier to the same member
  name. It fails on \<open>Q-edge1\<close> when the model holds no relation-entity node \<open>Q\<close>:
  the webview returns the identifier unchanged, the server strips the suffix.
\<close>

theorem decoders_differ_counterexample:
  "Some (resolveNavigationId (Some emptyGraph) ''Q-edge1'') \<noteq> decodeMemberName ''Q-edge1''"
proof -
  have "resolveNavigationId (Some emptyGraph) ''Q-edge1'' = ''Q-edge1''"
    by (simp add: resolveNavigationId_def emptyGraph_def endsWith_def isNodeOfKind_def
        descRelMatch_def resolveBracketed_def eqEdgeMatch_def eqNodeMatch_def specMatch_def
        directEqMatch_def lit_def alt_def line_terminator_def)
  moreover have "decodeMemberName ''Q-edge1'' = Some ''Q''"
    by (simp add: decodeMemberName_def serverSpecMatch_def serverDirectEqMatch_def
        serverEqNodeMatch_def serverEqEdgeMatch_def lit_def backslash_def endsWith_def
        strip_edge12_def)
  ultimately show ?thesis by simp
qed

text \<open>
  C1, amended. On an identifier that begins with neither an opening bracket nor a
  backslash, the webview's decoding (with a model loaded) equals the server's exactly
  when the model lookup behind the webview's suffix pattern succeeds: for an identifier
  ending in \<open>-edge1\<close> or \<open>-edge2\<close>, the model holds a relation-entity node named by the
  identifier without that suffix; for any other identifier that matches the
  relation-instance pattern, the model holds a relation-instance node named by the
  captured prefix. An identifier matching neither suffix pattern decodes to itself on
  both sides.
\<close>

theorem decoders_agree_iff:
  assumes "\<not> startsWith searchId ''[''" and "\<not> startsWith searchId [backslash]"
  shows "Some (resolveNavigationId (Some model) searchId) = decodeMemberName searchId \<longleftrightarrow>
     (if endsWith searchId ''-edge1'' \<or> endsWith searchId ''-edge2''
      then isNodeOfKind model (strip_edge12 searchId) ''relation-entity''
      else (case descRelMatch searchId of
              Some q \<Rightarrow> isNodeOfKind model q ''relation-instance''
            | None \<Rightarrow> True))"
proof -
  note br = resolveBracketed_id [OF assms(1)]
  note sv = server_bracket_patterns_None [OF assms(2)]
  show ?thesis
  proof (cases "endsWith searchId ''-edge1'' \<or> endsWith searchId ''-edge2''")
    case True
    from strip_edge12_length [OF True]
    have len: "length (strip_edge12 searchId) + 6 = length searchId" .
    then have ne: "searchId \<noteq> strip_edge12 searchId" by auto
    have ne2: "descRelMatch searchId = Some q \<Longrightarrow> q \<noteq> strip_edge12 searchId" for q
      using descRelMatch_length [of searchId q] len by auto
    from True sv br ne ne2 show ?thesis
      by (auto simp: resolveNavigationId_def decodeMemberName_def split: option.splits)
  next
    case False
    have ne2: "descRelMatch searchId = Some q \<Longrightarrow> searchId \<noteq> q" for q
      using descRelMatch_length [of searchId q] by auto
    from False sv br ne2 show ?thesis
      by (auto simp: resolveNavigationId_def decodeMemberName_def serverDescRelMatch_eq
          split: option.splits)
  qed
qed

theorem decoders_agree_iff_witness:
  "\<not> startsWith ''Q-edge1'' ''['' \<and> \<not> startsWith ''Q-edge1'' [backslash]
   \<and> Some (resolveNavigationId (Some graphWithRelationEntity) ''Q-edge1'')
       = decodeMemberName ''Q-edge1''
   \<and> decodeMemberName ''Q-edge1'' = Some ''Q''"
proof -
  have a: "\<not> startsWith ''Q-edge1'' ''[''" by (simp add: startsWith_def)
  have b: "\<not> startsWith ''Q-edge1'' [backslash]" by (simp add: startsWith_def backslash_def)
  have c: "endsWith ''Q-edge1'' ''-edge1''" by (simp add: endsWith_def)
  have d: "isNodeOfKind graphWithRelationEntity (strip_edge12 ''Q-edge1'') ''relation-entity''"
    by (simp add: isNodeOfKind_def graphWithRelationEntity_def strip_edge12_def endsWith_def
        startsWith_def)
  have e: "decodeMemberName ''Q-edge1'' = Some ''Q''"
    by (simp add: decodeMemberName_def serverSpecMatch_def serverDirectEqMatch_def
        serverEqNodeMatch_def serverEqEdgeMatch_def lit_def backslash_def endsWith_def
        strip_edge12_def)
  from decoders_agree_iff [OF a b, of graphWithRelationEntity] c d
  have "Some (resolveNavigationId (Some graphWithRelationEntity) ''Q-edge1'')
          = decodeMemberName ''Q-edge1''"
    by simp
  with a b e show ?thesis by simp
qed

text \<open>
  The server's first four patterns do not match the identifiers they are meant for: a
  bracketed identifier falls through to the end of the chain and is returned unchanged.
  What they do match starts with a backslash, and then the member name is undefined.
\<close>

lemma server_bracketed_id_unchanged: "decodeMemberName ''[A]->[B]'' = Some ''[A]->[B]''"
  by (simp add: decodeMemberName_def serverSpecMatch_def serverDirectEqMatch_def
      serverEqNodeMatch_def serverEqEdgeMatch_def serverDescRelMatch_def lit_def alt_def
      backslash_def endsWith_def line_terminator_def)

lemma server_member_name_undefined: "decodeMemberName [backslash, CHR ''+''] = None"
  by (simp add: decodeMemberName_def serverSpecMatch_def serverSpecClass_def lit_def
      at_end_def)

subsection \<open>The order of the patterns\<close>




















section \<open>Properties of the graph synthesizer\<close>

lemma rootEdges_append: "rootEdges (xs @ ys) = rootEdges xs @ rootEdges ys"
  by (induction xs rule: rootEdges.induct) simp_all

lemma rootNodes_append: "rootNodes (xs @ ys) = rootNodes xs @ rootNodes ys"
  by (induction xs rule: rootNodes.induct) simp_all

lemma rootEdges_map_Node: "rootEdges (map Node ns) = []"
  by (induction ns) simp_all

lemma rootEdges_map_Edge: "rootEdges (map Edge es) = es"
  by (induction es) simp_all

lemma rootNodes_map_Node: "rootNodes (map Node ns) = ns"
  by (induction ns) simp_all

lemma rootNodes_map_Edge: "rootNodes (map Edge es) = []"
  by (induction es) simp_all

lemma diagramToSprotty_edges:
  "rootEdges (root_children (diagramToSprotty model))
     = createEdges (createNodes model) (dm_edges model)"
  by (simp add: diagramToSprotty_def Let_def rootEdges_append rootEdges_map_Node
      rootEdges_map_Edge)

lemma diagramToSprotty_nodes:
  "rootNodes (root_children (diagramToSprotty model)) = createNodes model"
  by (simp add: diagramToSprotty_def Let_def rootNodes_append rootNodes_map_Node
      rootNodes_map_Edge)

subsection \<open>Scenario A\<close>

lemma scenarioA_nodes: "map node_id (createNodes scenarioA) = [''A'', ''B'']"
  by (simp add: createNodes_def scenarioA_def plainNode_def createNode_def Let_def)

lemma scenarioA_edge_ids:
  "map edge_id (rootEdges (root_children (diagramToSprotty scenarioA))) = [''A->B'']"
proof -
  have "makeUniqueId [''A'', ''B''] ''A->B'' = (''A->B'', [''A'', ''B'', ''A->B''])"
    by (simp add: makeUniqueId_def makeUniqueId_loop.simps Let_def)
  then show ?thesis
    using scenarioA_nodes
    by (simp add: diagramToSprotty_edges createEdges_def createEdge_def scenarioA_def
        plainEdge_def baseId_def Let_def)
qed

lemma scenarioA_wire:
  "rootToSModel (diagramToSprotty scenarioA) =
     SModelElement ''root'' ''graph'' None
       [SModelElement ''A'' ''node:rect'' (Some ''concept'')
          [SModelElement ''A_label'' ''label'' None []],
        SModelElement ''B'' ''node:rect'' (Some ''concept'')
          [SModelElement ''B_label'' ''label'' None []],
        SModelElement ''A->B'' ''edge'' (Some ''specialization'') []]"
proof -
  have "makeUniqueId [''A'', ''B''] ''A->B'' = (''A->B'', [''A'', ''B'', ''A->B''])"
    by (simp add: makeUniqueId_def makeUniqueId_loop.simps Let_def)
  then show ?thesis
    by (simp add: rootToSModel_def diagramToSprotty_def createNodes_def createNode_def
        createEdges_def createEdge_def scenarioA_def plainNode_def plainEdge_def baseId_def
        edgeLabel_def labelToSModel_def Let_def)
qed

text \<open>
  C2, as stated: for the model of scenario A the synthesizer produces a visual edge with
  the identifier \<open>[A]->[B]\<close>. It does not: no edge of the synthesized graph has it.
\<close>

theorem scenarioA_bracketed_id_counterexample:
  "''[A]->[B]'' \<notin> set (map edge_id (rootEdges (root_children (diagramToSprotty scenarioA))))"
  by (simp add: scenarioA_edge_ids)

text \<open>
  C2, amended. For the model of scenario A the synthesizer passes the edge's own
  identifier through: the one visual edge has the identifier \<open>A->B\<close>, which the webview
  decodes to itself. The bracketed identifier \<open>[A]->[B]\<close> is decoded by the webview, with
  that graph loaded, to the member name \<open>A\<close>.
\<close>

theorem scenarioA_synthesis_and_decoding:
  "map edge_id (rootEdges (root_children (diagramToSprotty scenarioA))) = [''A->B'']
   \<and> resolveNavigationId (Some (rootToSModel (diagramToSprotty scenarioA))) ''A->B'' = ''A->B''
   \<and> resolveNavigationId (Some (rootToSModel (diagramToSprotty scenarioA))) ''[A]->[B]'' = ''A''"
proof -
  have "resolveNavigationId (Some (rootToSModel (diagramToSprotty scenarioA))) ''A->B'' = ''A->B''"
    by (simp add: scenarioA_wire resolveNavigationId_def endsWith_def descRelMatch_def
        resolveBracketed_def eqEdgeMatch_def eqNodeMatch_def specMatch_def directEqMatch_def
        lit_def alt_def line_terminator_def)
  moreover
  have "resolveNavigationId (Some (rootToSModel (diagramToSprotty scenarioA))) ''[A]->[B]'' = ''A''"
    by (simp add: scenarioA_wire resolveNavigationId_def endsWith_def descRelMatch_def
        resolveBracketed_def eqEdgeMatch_def eqNodeMatch_def specMatch_def
        lit_def alt_def at_end_def line_terminator_def is_digit_def)
  ultimately show ?thesis using scenarioA_edge_ids by simp
qed

subsection \<open>Element identifiers\<close>

lemma makeUniqueId_loop_fresh: "makeUniqueId_loop used base ident i \<notin> set used"
proof (induction used base ident i rule: makeUniqueId_loop.induct)
  case (1 used base ident i)
  then show ?case by (subst makeUniqueId_loop.simps) simp
qed

text \<open>Scenario B of the specification: the second edge with base \<open>X\<close> becomes \<open>X:1\<close>.\<close>

lemma makeUniqueId_second: "makeUniqueId [''X''] ''X'' = (''X:1'', [''X'', ''X:1''])"
  by (simp add: makeUniqueId_def makeUniqueId_loop.simps candidate_def string_of_nat.simps
      Let_def)

lemma createEdge_usedIds: "usedIds (createEdge st e) = usedIds st @ [newId st e]"
  by (simp add: createEdge_def makeUniqueId_def newId_def Let_def)

lemma createEdge_edge_ids:
  "map edge_id (edges (createEdge st e)) = map edge_id (edges st) @ [newId st e]"
  by (simp add: createEdge_def makeUniqueId_def newId_def Let_def)

lemma ids_ok_createEdge:
  assumes "ids_ok nodeIds st"
  shows "ids_ok nodeIds (createEdge st e)"
proof -
  have fresh: "newId st e \<notin> set (usedIds st)"
    by (simp add: newId_def makeUniqueId_loop_fresh)
  with assms show ?thesis
    unfolding ids_ok_def createEdge_usedIds createEdge_edge_ids
    by auto
qed

lemma ids_ok_foldl: "ids_ok nodeIds st \<Longrightarrow> ids_ok nodeIds (foldl createEdge st es)"
  by (induction es arbitrary: st) (simp_all add: ids_ok_createEdge)

lemma ids_ok_createEdges:
  "distinct (map edge_id (createEdges nodes es))
   \<and> set (map edge_id (createEdges nodes es)) \<inter> set (map node_id nodes) = {}"
proof -
  have "ids_ok (map node_id nodes)
          \<lparr> usedIds = map node_id nodes, selfLoopAssigned = Map.empty, edges = [] \<rparr>"
    by (simp add: ids_ok_def)
  from ids_ok_foldl [OF this, of es] show ?thesis
    by (simp add: ids_ok_def createEdges_def)
qed

lemma createNodes_ids:
  "map node_id (createNodes model)
     = map dn_id (filter (\<lambda>n. dn_kind n \<noteq> ''relation'') (dm_nodes model))"
  by (simp add: createNodes_def createNode_def Let_def comp_def)

lemma diagramToSprotty_childIds:
  "map childId (root_children (diagramToSprotty model))
     = map node_id (createNodes model)
       @ map edge_id (createEdges (createNodes model) (dm_edges model))"
  by (simp add: diagramToSprotty_def Let_def comp_def)

text \<open>
  C9, as stated: in every synthesized graph the identifiers of nodes and edges are
  pairwise distinct. Node identifiers are copied from the model as they are, so a model
  that lists two nodes under one identifier gives a graph with two such nodes.
\<close>

theorem element_ids_counterexample:
  "\<not> distinct (map childId (root_children (diagramToSprotty twoNodesOneId)))"
  by (simp add: diagramToSprotty_childIds createNodes_ids twoNodesOneId_def plainNode_def
      createEdges_def)

text \<open>
  C9, amended. In every synthesized graph the edge identifiers are pairwise distinct and
  none of them is a node identifier; when the nodes of the model that are drawn (those
  whose kind is not \<open>relation\<close>) have pairwise distinct identifiers, all element
  identifiers of the graph, nodes and edges together, are pairwise distinct.
\<close>

theorem element_ids_distinct:
  "distinct (map edge_id (rootEdges (root_children (diagramToSprotty model))))
   \<and> set (map edge_id (rootEdges (root_children (diagramToSprotty model))))
       \<inter> set (map node_id (rootNodes (root_children (diagramToSprotty model)))) = {}
   \<and> (distinct (map dn_id (filter (\<lambda>n. dn_kind n \<noteq> ''relation'') (dm_nodes model)))
        \<longrightarrow> distinct (map childId (root_children (diagramToSprotty model))))"
  using ids_ok_createEdges [of "createNodes model" "dm_edges model"]
  by (auto simp: diagramToSprotty_edges diagramToSprotty_nodes diagramToSprotty_childIds
      createNodes_ids)

theorem element_ids_distinct_witness:
  "distinct (map dn_id (filter (\<lambda>n. dn_kind n \<noteq> ''relation'') (dm_nodes scenarioA)))
   \<and> distinct (map childId (root_children (diagramToSprotty scenarioA)))
   \<and> map childId (root_children (diagramToSprotty scenarioA)) = [''A'', ''B'', ''A->B'']"
proof -
  have a: "distinct (map dn_id (filter (\<lambda>n. dn_kind n \<noteq> ''relation'') (dm_nodes scenarioA)))"
    by (simp add: scenarioA_def plainNode_def)
  have b: "map childId (root_children (diagramToSprotty scenarioA)) = [''A'', ''B'', ''A->B'']"
    using scenarioA_nodes scenarioA_edge_ids
    by (simp add: diagramToSprotty_childIds diagramToSprotty_edges)
  from a b element_ids_distinct [of scenarioA] show ?thesis by simp
qed

subsection \<open>Label indices of self-loops\<close>

text \<open>
  C6 says that the self-loops on a node get the label indices 0, 1, 2 and so on. For a
  node whose identifier is the name of a property of \<open>Object.prototype\<close> the counter
  object already answers the first read with the inherited value, which is not
  \<open>undefined\<close>, so \<open>?? 0\<close> does not apply: the count is text from then on and the label
  index of every self-loop on that node is \<open>NaN\<close>. Here the one self-loop on the node
  \<open>constructor\<close> gets \<open>NaN\<close>, where the claim says 0.
\<close>

theorem constructor_self_loop_labelIndex:
  "map edge_labelIndex (rootEdges (root_children (diagramToSprotty constructorLoop))) = [NaN]"
  by (simp add: diagramToSprotty_edges createEdges_def createEdge_def constructorLoop_def
      plainEdge_def makeUniqueId_def Let_def getProperty_def setProperty_def
      object_prototype_keys_def)

text \<open>
  For every other node identifier the claim holds: the self-loops on a node whose
  identifier is no key of \<open>Object.prototype\<close> carry the indices 0, 1, 2 and so on in
  their order, and an edge between two different nodes has the index 0.
\<close>

lemma createEdge_selfLoopAssigned:
  "selfLoopAssigned (createEdge st e) =
     (if de_source e = de_target e
      then setProperty (selfLoopAssigned st) (de_source e)
             (plus_one (case getProperty (selfLoopAssigned st) (de_source e) of
                          None \<Rightarrow> Number (Num 0) | Some v \<Rightarrow> v))
      else selfLoopAssigned st)"
  by (simp add: createEdge_def Let_def split: prod.splits)

lemma createEdge_edges:
  "\<exists>E. edges (createEdge st e) = edges st @ [E]
       \<and> edge_sourceId E = de_source e \<and> edge_targetId E = de_target e
       \<and> edge_labelIndex E =
           (if de_source e = de_target e
            then minus_one (getProperty (selfLoopAssigned (createEdge st e)) (de_source e))
            else Num 0)"
  by (simp add: createEdge_def Let_def split: prod.splits)

lemma not_prototype_key_not_proto: "n \<notin> set object_prototype_keys \<Longrightarrow> n \<noteq> ''__proto__''"
  by (auto simp: object_prototype_keys_def)

lemma counters_ok_createEdge:
  assumes ok: "counters_ok st"
  shows "counters_ok (createEdge st e)"
  unfolding counters_ok_def
proof (intro allI impI)
  fix n assume n: "n \<notin> set object_prototype_keys"
  let ?L = "loopsOn n (edges st)"
  from ok n have lab: "map edge_labelIndex ?L = map (\<lambda>i. Num (real i)) [0..<length ?L]"
    and cnt: "selfLoopAssigned st n
                = (if ?L = [] then None else Some (Number (Num (real (length ?L)))))"
    by (simp_all add: counters_ok_def)
  obtain E where E: "edges (createEdge st e) = edges st @ [E]"
    and src: "edge_sourceId E = de_source e" and tgt: "edge_targetId E = de_target e"
    and idx: "edge_labelIndex E =
           (if de_source e = de_target e
            then minus_one (getProperty (selfLoopAssigned (createEdge st e)) (de_source e))
            else Num 0)"
    using createEdge_edges by blast
  show "map edge_labelIndex (loopsOn n (edges (createEdge st e)))
          = map (\<lambda>i. Num (real i)) [0..<length (loopsOn n (edges (createEdge st e)))]
        \<and> selfLoopAssigned (createEdge st e) n
          = (if loopsOn n (edges (createEdge st e)) = [] then None
             else Some (Number (Num (real (length (loopsOn n (edges (createEdge st e))))))))"
  proof (cases "de_source e = n \<and> de_target e = n")
    case True
    have get: "getProperty (selfLoopAssigned st) n = selfLoopAssigned st n"
      using n by (simp add: getProperty_def split: option.splits)
    have new: "selfLoopAssigned (createEdge st e) n = Some (Number (Num (real (length ?L) + 1)))"
      using True n cnt get not_prototype_key_not_proto [OF n]
      by (simp add: createEdge_selfLoopAssigned setProperty_def)
    have "getProperty (selfLoopAssigned (createEdge st e)) n
            = Some (Number (Num (real (length ?L) + 1)))"
      using new by (simp add: getProperty_def)
    with idx True have idxE: "edge_labelIndex E = Num (real (length ?L))"
      by (simp add: jsub_def)
    have loops: "loopsOn n (edges (createEdge st e)) = ?L @ [E]"
      using E src tgt True by (simp add: loopsOn_def)
    show ?thesis using loops lab idxE new by simp
  next
    case False
    have loops: "loopsOn n (edges (createEdge st e)) = ?L"
      using E src tgt False by (auto simp: loopsOn_def)
    have "selfLoopAssigned (createEdge st e) n = selfLoopAssigned st n"
      using False by (auto simp: createEdge_selfLoopAssigned setProperty_def)
    with loops lab cnt show ?thesis by simp
  qed
qed

lemma counters_ok_foldl: "counters_ok st \<Longrightarrow> counters_ok (foldl createEdge st es)"
  by (induction es arbitrary: st) (simp_all add: counters_ok_createEdge)

lemma self_loop_labelIndex:
  assumes "n \<notin> set object_prototype_keys"
  shows "map edge_labelIndex (loopsOn n (rootEdges (root_children (diagramToSprotty model))))
     = map (\<lambda>i. Num (real i))
         [0..<length (loopsOn n (rootEdges (root_children (diagramToSprotty model))))]"
proof -
  have "counters_ok \<lparr> usedIds = map node_id (createNodes model),
                       selfLoopAssigned = Map.empty, edges = [] \<rparr>"
    by (simp add: counters_ok_def loopsOn_def)
  from counters_ok_foldl [OF this, of "dm_edges model"] assms show ?thesis
    by (simp add: counters_ok_def diagramToSprotty_edges createEdges_def)
qed

lemma plain_ok_createEdge: "plain_ok st \<Longrightarrow> plain_ok (createEdge st e)"
  using createEdge_edges [of st e] by (auto simp: plain_ok_def)

lemma plain_ok_foldl: "plain_ok st \<Longrightarrow> plain_ok (foldl createEdge st es)"
  by (induction es arbitrary: st) (simp_all add: plain_ok_createEdge)

lemma non_loop_labelIndex:
  assumes "E \<in> set (rootEdges (root_children (diagramToSprotty model)))"
    and "edge_sourceId E \<noteq> edge_targetId E"
  shows "edge_labelIndex E = Num 0"
proof -
  have "plain_ok \<lparr> usedIds = map node_id (createNodes model),
                    selfLoopAssigned = Map.empty, edges = [] \<rparr>"
    by (simp add: plain_ok_def)
  from plain_ok_foldl [OF this, of "dm_edges model"] assms show ?thesis
    by (auto simp: plain_ok_def diagramToSprotty_edges createEdges_def list_all_iff)
qed

lemma twoLoops_labelIndex:
  "map edge_labelIndex (rootEdges (root_children (diagramToSprotty twoLoops)))
     = [Num 0, Num 1]"
  by (simp add: diagramToSprotty_edges createEdges_def createEdge_def twoLoops_def
      plainEdge_def makeUniqueId_def Let_def getProperty_def setProperty_def
      object_prototype_keys_def jsub_def)

section \<open>Properties of the layout adapter\<close>

subsection \<open>Failure of the engine\<close>

lemma createNode_unpositioned: "unpositioned (Node (createNode n))"
  by (simp add: createNode_def Let_def unpositionedLabel_def)

lemma edgeLabel_unpositioned: "list_all unpositionedLabel (edgeLabel ident l)"
  by (simp add: edgeLabel_def labelElement_def unpositionedLabel_def split: option.splits)

lemma edges_unpositioned_createEdge:
  "edges_unpositioned st \<Longrightarrow> edges_unpositioned (createEdge st e)"
  by (simp add: edges_unpositioned_def createEdge_def Let_def edgeLabel_unpositioned
      split: prod.splits)

lemma edges_unpositioned_foldl:
  "edges_unpositioned st \<Longrightarrow> edges_unpositioned (foldl createEdge st es)"
  by (induction es arbitrary: st) (simp_all add: edges_unpositioned_createEdge)

lemma diagramToSprotty_unpositioned:
  "list_all unpositioned (root_children (diagramToSprotty model))"
proof -
  have "edges_unpositioned \<lparr> usedIds = map node_id (createNodes model),
                    selfLoopAssigned = Map.empty, edges = [] \<rparr>"
    by (simp add: edges_unpositioned_def)
  from edges_unpositioned_foldl [OF this, of "dm_edges model"]
  have "list_all (\<lambda>e. unpositioned (Edge e)) (createEdges (createNodes model) (dm_edges model))"
    by (simp add: edges_unpositioned_def createEdges_def)
  moreover have "list_all (\<lambda>n. unpositioned (Node n)) (createNodes model)"
    using createNode_unpositioned
    by (simp add: createNodes_def list_all_iff del: unpositioned.simps)
  ultimately show ?thesis
    by (simp add: diagramToSprotty_def Let_def list.pred_map comp_def
        del: unpositioned.simps)
qed

text \<open>The \<open>catch\<close> branch returns the graph it was given, whatever that graph is.\<close>

lemma layoutWithFallback_error:
  "ElkLayoutEngine OmlLayoutConfigurator sgraph = Inl err
     \<Longrightarrow> layoutWithFallback ElkLayoutEngine sgraph = sgraph"
  by (simp add: layoutWithFallback_def)

text \<open>
  C5. When the layout engine fails on the synthesized graph, the adapter returns that
  graph as it was before layout: no node or label has a position and no edge has routing
  points. The adapter's result is a graph in every case, so no exception reaches the
  caller.
\<close>

theorem layout_fails_soft:
  assumes "ElkLayoutEngine OmlLayoutConfigurator (diagramToSprotty diagram) = Inl err"
  shows "computeLaidOutSModelForUri ElkLayoutEngine diagram = diagramToSprotty diagram
         \<and> list_all unpositioned
             (root_children (computeLaidOutSModelForUri ElkLayoutEngine diagram))"
  using assms diagramToSprotty_unpositioned
  by (simp add: computeLaidOutSModelForUri_def layoutWithFallback_def)

theorem layout_fails_soft_witness:
  "failingEngine OmlLayoutConfigurator (diagramToSprotty scenarioA) = Inl ''layout failed''
   \<and> computeLaidOutSModelForUri failingEngine scenarioA = diagramToSprotty scenarioA
   \<and> list_all unpositioned (root_children (computeLaidOutSModelForUri failingEngine scenarioA))"
proof -
  have a: "failingEngine OmlLayoutConfigurator (diagramToSprotty scenarioA)
             = Inl ''layout failed''"
    by (simp add: failingEngine_def)
  from layout_fails_soft [of failingEngine scenarioA "''layout failed''"] a
  show ?thesis by blast
qed

subsection \<open>Label placement after a successful layout\<close>

text \<open>Neither of the two objects spread over the placement entry has its key.\<close>

lemma spread_keeps_placement:
  "map_of (spread (spread [(''org.eclipse.elk.edgeLabels.placement'', ''CENTER'')]
                     (baseLayoutOptions isSpec))
             (selfLoopOptions isSelfLoop))
      ''org.eclipse.elk.edgeLabels.placement'' = Some ''CENTER''"
  by (simp add: spread_def baseLayoutOptions_def selfLoopOptions_def)

lemma edges_centered_createEdge: "edges_centered st \<Longrightarrow> edges_centered (createEdge st e)"
  using spread_keeps_placement
  by (simp add: edges_centered_def createEdge_def Let_def placementCenter_def
      split: prod.splits)

lemma edges_centered_foldl: "edges_centered st \<Longrightarrow> edges_centered (foldl createEdge st es)"
  by (induction es arbitrary: st) (simp_all add: edges_centered_createEdge)

lemma synthesized_edges_centered:
  "list_all placementCenter (rootEdges (root_children (diagramToSprotty model)))"
proof -
  have "edges_centered \<lparr> usedIds = map node_id (createNodes model),
                    selfLoopAssigned = Map.empty, edges = [] \<rparr>"
    by (simp add: edges_centered_def)
  from edges_centered_foldl [OF this, of "dm_edges model"] show ?thesis
    by (simp add: edges_centered_def diagramToSprotty_edges createEdges_def)
qed

lemma adjustEdgeLabel_centered: "placementCenter e \<Longrightarrow> adjustEdgeLabel e = e"
  by (simp add: adjustEdgeLabel_def placementCenter_def)

lemma adjustChild_centered:
  "list_all placementCenter (rootEdges cs) \<Longrightarrow> map adjustChild cs = cs"
  by (induction cs rule: rootEdges.induct) (simp_all add: adjustEdgeLabel_centered)

text \<open>
  C10. Every edge of a synthesized graph carries the edge-label placement \<open>CENTER\<close>.
  Hence, when the engine succeeds and returns the edges with the options they were given,
  the adjustment of \<open>TAIL\<close> labels changes nothing: the adapter returns the engine's
  graph as it is, label positions included.
\<close>

theorem labels_left_as_laid_out:
  assumes "ElkLayoutEngine OmlLayoutConfigurator (diagramToSprotty diagram) = Inr laidOut"
    and "keepsEdgeOptions (diagramToSprotty diagram) laidOut"
  shows "list_all placementCenter (rootEdges (root_children (diagramToSprotty diagram)))
         \<and> computeLaidOutSModelForUri ElkLayoutEngine diagram = laidOut"
proof -
  have syn: "list_all placementCenter (rootEdges (root_children (diagramToSprotty diagram)))"
    by (rule synthesized_edges_centered)
  have "list_all placementCenter (rootEdges (root_children laidOut))"
    using assms(2) syn
    by (auto simp: keepsEdgeOptions_def list_all_iff placementCenter_def)
  then have "map adjustChild (root_children laidOut) = root_children laidOut"
    by (rule adjustChild_centered)
  with assms(1) syn show ?thesis
    by (simp add: computeLaidOutSModelForUri_def layoutWithFallback_def)
qed

text \<open>
  A run of the theorem, on the model with one labelled edge and the engine that places
  every label at \<open>(5, 5)\<close>.
\<close>

lemma rootEdges_place:
  "map edge_layoutOptions (rootEdges (map place cs)) = map edge_layoutOptions (rootEdges cs)"
  by (induction cs rule: rootEdges.induct) simp_all

lemma labelledEdge_label_positions:
  "map (map label_position \<circ> edge_children)
     (rootEdges (map place (root_children (diagramToSprotty labelledEdge))))
     = [[Some (Num 5, Num 5)]]"
  by (simp add: diagramToSprotty_def labelledEdge_def plainEdge_def plainNode_def
      createNodes_def createEdges_def createEdge_def createNode_def Let_def makeUniqueId_def
      makeUniqueId_loop.simps baseId_def edgeLabel_def rootEdges_append rootEdges_map_Node)

theorem labels_left_as_laid_out_witness:
  "placingEngine OmlLayoutConfigurator (diagramToSprotty labelledEdge)
     = Inr (placed (diagramToSprotty labelledEdge))
   \<and> keepsEdgeOptions (diagramToSprotty labelledEdge) (placed (diagramToSprotty labelledEdge))
   \<and> computeLaidOutSModelForUri placingEngine labelledEdge
       = placed (diagramToSprotty labelledEdge)
   \<and> map (map label_position \<circ> edge_children)
         (rootEdges (root_children (computeLaidOutSModelForUri placingEngine labelledEdge)))
       = [[Some (Num 5, Num 5)]]"
proof -
  let ?g = "diagramToSprotty labelledEdge"
  have a: "placingEngine OmlLayoutConfigurator ?g = Inr (placed ?g)"
    by (simp add: placingEngine_def)
  have b: "keepsEdgeOptions ?g (placed ?g)"
    using rootEdges_place [of "root_children ?g"]
    by (simp add: keepsEdgeOptions_def placed_def list_all_iff) (metis image_eqI list.set_map)
  have c: "computeLaidOutSModelForUri placingEngine labelledEdge = placed ?g"
    using labels_left_as_laid_out [of placingEngine labelledEdge "placed ?g"] a b by blast
  have d: "map (map label_position \<circ> edge_children) (rootEdges (root_children (placed ?g)))
             = [[Some (Num 5, Num 5)]]"
    using labelledEdge_label_positions by (simp add: placed_def)
  from a b c d show ?thesis by simp
qed

text \<open>
  The adjustment itself, on the sample edge placed \<open>TAIL\<close>: the label moves to 12
  units before the end point of the last segment.
\<close>

lemma adjustEdgeLabel_tail:
  "map label_position (edge_children (adjustEdgeLabel tailEdge)) = [Some (Num 0, Num (- 2))]"
proof -
  have "sqrt 100 = (10::real)" using real_sqrt_abs2 [of "10::real"] by simp
  then show ?thesis
    by (simp add: adjustEdgeLabel_def tailEdge_def labelElement_def edgePoints_def Let_def
        jsub_def jeq_def)
qed

subsection \<open>The configuration of the engine\<close>

text \<open>
  The adapter consults the engine once, with \<open>OmlLayoutConfigurator\<close> and the graph it
  was given: two engines that answer alike there give the same result.
\<close>

lemma engine_consulted_once:
  "E OmlLayoutConfigurator sgraph = E' OmlLayoutConfigurator sgraph
     \<Longrightarrow> layoutWithFallback E sgraph = layoutWithFallback E' sgraph"
  by (simp add: layoutWithFallback_def)


section \<open>Properties of the pan and zoom controller\<close>

subsection \<open>The range of the scale\<close>

text \<open>
  C7 says that the scale stays within \<open>[0.2, 3.0]\<close> over every sequence of wheel and
  pinch operations. A pinch that starts with its two touch points at the same place
  records the start distance 0; a move with the two points again together then divides 0
  by 0, and \<open>clamp\<close>, made of \<open>Math.max\<close> and \<open>Math.min\<close>, passes the \<open>NaN\<close> on to
  the scale.
\<close>

theorem degenerate_pinch_scale:
  "scale (run [TouchStart [(0, 0), (0, 0)] (0, 0), TouchMove [(0, 0), (0, 0)]]) = NaN"
  by (simp add: run_def initial_def initializePinch_def handlePinchMove_def distance_def
      clamp_def MIN_SCALE_def MAX_SCALE_def signed_inf_def Let_def)

text \<open>
  Over every other sequence of events the claim holds in exact arithmetic (an overflow of
  \<open>Math.hypot\<close> on touch points that lie more than the largest number apart is outside
  it): when each pinch starts with two different touch points, the scale after any
  sequence of mouse, wheel and touch events and resets is a number between 0.2 and 3.
\<close>

lemma jsub_Num: "jsub (Num a) (Num b) = Num (a - b)"
  by (simp add: jsub_def)

lemma in_range_Num: "in_range v \<longleftrightarrow> (\<exists>s. v = Num s \<and> 0.2 \<le> s \<and> s \<le> 3)"
  by (cases v) (simp_all add: in_range_def)

lemma clamp_Num: "clamp (Num v) MIN_SCALE MAX_SCALE = Num (max 0.2 (min 3 v))"
  by (simp add: clamp_def MIN_SCALE_def MAX_SCALE_def)

lemma clamp_in_range: "v \<noteq> NaN \<Longrightarrow> in_range (clamp v MIN_SCALE MAX_SCALE)"
  by (cases v) (simp_all add: clamp_def MIN_SCALE_def MAX_SCALE_def in_range_def)

lemma distance_pos:
  assumes "t0 \<noteq> t1"
  shows "\<exists>d. distance (fst t0) (snd t0) (fst t1) (snd t1) = Num d \<and> 0 < d"
proof -
  from assms have "fst t1 - fst t0 \<noteq> 0 \<or> snd t1 - snd t0 \<noteq> 0"
    by (cases t0, cases t1) auto
  then have "0 < (fst t1 - fst t0) * (fst t1 - fst t0) + (snd t1 - snd t0) * (snd t1 - snd t0)"
    by (metis add.commute add_pos_nonneg not_real_square_gt_zero zero_le_square)
  then show ?thesis by (simp add: distance_def)
qed

lemma zoomAt_ok:
  assumes "scale_ok c" and "newScale \<noteq> NaN"
  shows "scale_ok (zoomAt newScale cx cy c)"
  using assms clamp_in_range [OF assms(2)]
  by (simp add: zoomAt_def scale_ok_def Let_def)

lemma onWheel_ok:
  assumes "scale_ok c"
  shows "scale_ok (onWheel x y deltaY r c)"
proof -
  from assms obtain s where "scale c = Num s" by (auto simp: scale_ok_def in_range_Num)
  then have "jmul (scale c) (Num (exp (- deltaY * 0.001))) \<noteq> NaN" by simp
  from zoomAt_ok [OF assms this] show ?thesis by (simp add: onWheel_def Let_def)
qed

lemma handlePinchMove_ok:
  assumes "scale_ok c" and "pinchActive c"
  shows "scale_ok (handlePinchMove t0 t1 c)"
proof -
  from assms obtain d0 where d0: "pinchStartDist c = Num d0" "0 < d0"
    by (auto simp: scale_ok_def split: jsnum.splits)
  from assms obtain ss where ss: "pinchStartScale c = Num ss"
    by (auto simp: scale_ok_def in_range_Num)
  have "jmul (pinchStartScale c)
          (jdiv (distance (fst t0) (snd t0) (fst t1) (snd t1)) (pinchStartDist c)) \<noteq> NaN"
    using d0 ss by (simp add: distance_def)
  from clamp_in_range [OF this] assms show ?thesis
    by (simp add: handlePinchMove_def scale_ok_def Let_def)
qed

lemma onTouchStart_ok:
  "scale_ok c \<Longrightarrow> proper (TouchStart touches r) \<Longrightarrow> scale_ok (onTouchStart touches r c)"
proof (induction touches r c rule: onTouchStart.induct)
  case (2 t0 t1 r c)
  then have "t0 \<noteq> t1" by simp
  from distance_pos [OF this] obtain d
    where "distance (fst t0) (snd t0) (fst t1) (snd t1) = Num d" "0 < d" by blast
  with 2 show ?case by (simp add: initializePinch_def scale_ok_def)
qed (simp_all add: scale_ok_def)

lemma onTouchMove_ok: "scale_ok c \<Longrightarrow> scale_ok (onTouchMove touches c)"
  by (induction touches c rule: onTouchMove.induct)
    (simp_all add: handlePinchMove_ok, simp_all add: scale_ok_def)

lemma onTouchEnd_ok: "scale_ok c \<Longrightarrow> scale_ok (onTouchEnd touches c)"
  by (induction touches c rule: onTouchEnd.induct) (simp_all add: scale_ok_def)

lemma handle_ok:
  assumes "scale_ok c" and "proper ev"
  shows "scale_ok (handle c ev)"
proof (cases ev)
  case (MouseDown b h x y)
  with assms show ?thesis by (simp add: onMouseDown_def scale_ok_def)
next
  case (MouseMove x y)
  with assms show ?thesis by (simp add: onMouseMove_def scale_ok_def)
next
  case MouseUp
  with assms show ?thesis by (simp add: onMouseUp_def scale_ok_def)
next
  case (Wheel x y deltaY r)
  with assms show ?thesis by (simp add: onWheel_ok)
next
  case (TouchStart touches r)
  with assms show ?thesis by (simp add: onTouchStart_ok)
next
  case (TouchMove touches)
  with assms show ?thesis by (simp add: onTouchMove_ok)
next
  case (TouchEnd touches)
  with assms show ?thesis by (simp add: onTouchEnd_ok)
next
  case Reset
  with assms show ?thesis by (simp add: reset_def scale_ok_def in_range_def)
qed

lemma foldl_handle_ok:
  "scale_ok c \<Longrightarrow> list_all proper evs \<Longrightarrow> scale_ok (foldl handle c evs)"
  by (induction evs arbitrary: c) (simp_all add: handle_ok)

lemma initial_ok: "scale_ok initial"
  by (simp add: scale_ok_def initial_def in_range_def)

lemma scale_stays_in_range:
  assumes "list_all proper evs"
  shows "\<exists>s. scale (run evs) = Num s \<and> 0.2 \<le> s \<and> s \<le> 3"
  using foldl_handle_ok [OF initial_ok assms]
  by (simp add: run_def scale_ok_def in_range_Num)

subsection \<open>Zoom about the pointer\<close>

text \<open>
  The first half of C8 holds of \<open>onWheel\<close> whatever rectangle it reads. On a controller
  whose scale \<open>s0\<close> is a positive number and whose pan \<open>(px, py)\<close> is finite, a wheel
  event sets the scale to the clamped \<open>s1\<close> and the pan to
  \<open>p + (1 - s1 / s0) * (c - p)\<close> on each axis, where \<open>c\<close> is the pointer measured from
  the corner of that rectangle.
\<close>

lemma wheel_pan_formula:
  assumes "scale c = Num s0" and "0 < s0" and "panX c = Num px" and "panY c = Num py"
    and "s1 = max 0.2 (min 3 (s0 * exp (- deltaY * 0.001)))"
    and "c' = onWheel clientX clientY deltaY r c"
  shows "scale c' = Num s1"
    and "panX c' = Num (px + (1 - s1 / s0) * (clientX - fst r - px))"
    and "panY c' = Num (py + (1 - s1 / s0) * (clientY - snd r - py))"
proof -
  have cl: "clamp (jmul (scale c) (Num (exp (- deltaY * 0.001)))) MIN_SCALE MAX_SCALE = Num s1"
    using assms(1,5) by (simp add: clamp_Num)
  have "scale c' = Num s1
     \<and> panX c' = Num (px + (1 - s1 / s0) * (clientX - fst r - px))
     \<and> panY c' = Num (py + (1 - s1 / s0) * (clientY - snd r - py))"
  proof (cases "s1 = s0")
    case True
    with assms(1-4,6) cl show ?thesis
      by (simp add: onWheel_def zoomAt_def Let_def jeq_def)
  next
    case False
    with assms(1-4,6) cl show ?thesis
      by (simp add: onWheel_def zoomAt_def Let_def jeq_def jsub_Num)
  qed
  then show "scale c' = Num s1"
    and "panX c' = Num (px + (1 - s1 / s0) * (clientX - fst r - px))"
    and "panY c' = Num (py + (1 - s1 / s0) * (clientY - snd r - py))"
    by simp_all
qed

text \<open>
  The second half does not follow in the application. The rectangle that \<open>onWheel\<close>
  reads belongs to the element that carries the transform, so the pointer is measured
  from a corner that has moved with the pan, and the pan is then subtracted once more.
  The diagram coordinate under the pointer changes by \<open>(1 / s1 - 1 / s0) * pan\<close>; it
  stays where it was only when the scale does not change or the pan is zero.
\<close>

lemma wheel_zoom_drift:
  assumes "scale c = Num s0" and "0 < s0" and "panX c = Num px" and "panY c = Num py"
    and "s1 = max 0.2 (min 3 (s0 * exp (- deltaY * 0.001)))"
    and "getBoundingClientRect corner c = Some r"
    and "c' = onWheel clientX clientY deltaY r c"
  shows "diagramX corner c clientX = Num ((clientX - fst corner - px) / s0)"
    and "diagramX corner c' clientX
           = Num ((clientX - fst corner - px) / s0 + (1 / s1 - 1 / s0) * px)"
    and "diagramY corner c clientY = Num ((clientY - snd corner - py) / s0)"
    and "diagramY corner c' clientY
           = Num ((clientY - snd corner - py) / s0 + (1 / s1 - 1 / s0) * py)"
proof -
  have s1_pos: "0 < s1" using assms(5) by (simp add: max_def)
  from assms(1-4,6) have r: "r = (fst corner + px, snd corner + py)"
    by (simp add: getBoundingClientRect_def)
  note w = wheel_pan_formula [OF assms(1-5) assms(7)]
  have drift: "(x - (p + (1 - s1 / s0) * (x - p - p))) / s1 = (x - p) / s0 + (1 / s1 - 1 / s0) * p"
    for x p
    using s1_pos assms(2) by (simp add: field_simps)
  show "diagramX corner c clientX = Num ((clientX - fst corner - px) / s0)"
    using assms(1-3) by (simp add: diagramX_def jsub_Num)
  show "diagramY corner c clientY = Num ((clientY - snd corner - py) / s0)"
    using assms(1,2,4) by (simp add: diagramY_def jsub_Num)
  show "diagramX corner c' clientX
          = Num ((clientX - fst corner - px) / s0 + (1 / s1 - 1 / s0) * px)"
    using w(1,2) s1_pos drift [of "clientX - fst corner" px]
    by (simp add: diagramX_def jsub_Num r algebra_simps)
  show "diagramY corner c' clientY
          = Num ((clientY - snd corner - py) / s0 + (1 / s1 - 1 / s0) * py)"
    using w(1,3) s1_pos drift [of "clientY - snd corner" py]
    by (simp add: diagramY_def jsub_Num r algebra_simps)
qed

text \<open>
  C8 says that a wheel zoom sets the pan to \<open>p + (1 - s1 / s0) * (c - p)\<close> and that
  the diagram coordinate drawn under the pointer is therefore the same before and after.
  On this run of the application, its element at the corner \<open>(0, 0)\<close> of the
  viewport, the pan follows the formula and the coordinate under the pointer changes.
  The view is dragged 100 to the right: mouse button down on the background at
  \<open>(10, 10)\<close>, mouse moved to \<open>(110, 10)\<close>, button up. The rectangle of the element
  is now at \<open>(100, 0)\<close>. A wheel event at the client point \<open>(300, 50)\<close> with
  \<open>deltaY = -2000\<close> asks for the scale \<open>exp 2\<close>, clamped to 3; \<open>onWheel\<close> takes
  the pointer to be at \<open>(300 - 100, 50)\<close> and sets the pan to
  \<open>100 + (1 - 3) * (200 - 100) = -100\<close> and \<open>0 + (1 - 3) * (50 - 0) = -100\<close>.
  Before the event the diagram point drawn under the pointer is
  \<open>((300 - 100) / 1, 50 / 1) = (200, 50)\<close>; after it,
  \<open>((300 + 100) / 3, (50 + 100) / 3) = (400 / 3, 50)\<close>: on the axis without pan the
  point has stayed, on the axis with pan it has moved.
\<close>

theorem panned_wheel_zoom_drifts:
  "let c = run [MouseDown 0 False 10 10, MouseMove 110 10, MouseUp];
       c' = handle c (Wheel 300 50 (- 2000) (100, 0))
   in scale c = Num 1 \<and> panX c = Num 100 \<and> panY c = Num 0
      \<and> getBoundingClientRect (0, 0) c = Some (100, 0)
      \<and> scale c' = Num 3 \<and> panX c' = Num (- 100) \<and> panY c' = Num (- 100)
      \<and> diagramX (0, 0) c 300 = Num 200 \<and> diagramY (0, 0) c 50 = Num 50
      \<and> diagramX (0, 0) c' 300 = Num (400 / 3) \<and> diagramY (0, 0) c' 50 = Num 50"
proof -
  define c where "c = run [MouseDown 0 False 10 10, MouseMove 110 10, MouseUp]"
  define c' where "c' = handle c (Wheel 300 50 (- 2000) (100, 0))"
  have st: "scale c = Num 1" "panX c = Num 100" "panY c = Num 0"
    by (simp_all add: c_def run_def initial_def onMouseDown_def onMouseMove_def onMouseUp_def
        jsub_Num)
  have rect: "getBoundingClientRect (0, 0) c = Some (100, 0)"
    using st by (simp add: getBoundingClientRect_def)
  have "(1::real) + 2 \<le> exp 2" by (rule exp_ge_add_one_self)
  then have s1: "(3::real) = max 0.2 (min 3 (1 * exp (- (- 2000) * 0.001)))" by simp
  have w: "c' = onWheel 300 50 (- 2000) (100, 0) c" by (simp add: c'_def)
  note f = wheel_pan_formula [OF st(1) _ st(2,3) s1 w]
  have st': "scale c' = Num 3" "panX c' = Num (- 100)" "panY c' = Num (- 100)"
    using f by simp_all
  have "diagramX (0, 0) c 300 = Num 200" "diagramY (0, 0) c 50 = Num 50"
    using st by (simp_all add: diagramX_def diagramY_def jsub_Num)
  moreover have "diagramX (0, 0) c' 300 = Num (400 / 3)" "diagramY (0, 0) c' 50 = Num 50"
    using st' by (simp_all add: diagramX_def diagramY_def jsub_Num)
  ultimately show ?thesis
    using st st' rect unfolding Let_def c_def [symmetric] c'_def [symmetric] by simp
qed

text \<open>With no pan the corner has not moved, and the zoom is about the pointer.\<close>

lemma unpanned_wheel_zoom_anchored:
  assumes "scale c = Num s0" and "0 < s0" and "panX c = Num 0" and "panY c = Num 0"
    and "getBoundingClientRect corner c = Some r"
  shows "diagramX corner (onWheel clientX clientY deltaY r c) clientX = diagramX corner c clientX"
    and "diagramY corner (onWheel clientX clientY deltaY r c) clientY = diagramY corner c clientY"
  using wheel_zoom_drift [OF assms(1-4) refl assms(5) refl] by simp_all
end
